theory Spec2Isabelle
  imports
    Complex_Main
    "HOL-Library.Multiset"
    "HOL-Library.Char_ord"
    "HOL-Library.List_Lexorder"
    "HOL-Library.Product_Lexorder"
begin

section \<open>Data model\<close>

text \<open>
  The handlers of \<^verbatim>\<open>app/api/v1/routers/walk_reports.py\<close>,
  \<^verbatim>\<open>app/api/v1/routers/health_records.py\<close>,
  \<^verbatim>\<open>app/api/v1/routers/certificates.py\<close> and the functions of
  \<^verbatim>\<open>app/services/certificate_service.py\<close> are embedded as HOL functions over an
  explicit database value. A table is the list of its rows in the order in which the
  store scans them; \<^verbatim>\<open>query.filter(p)\<close> is \<^const>\<open>filter\<close>,
  \<^verbatim>\<open>.first()\<close> is \<^const>\<open>find\<close>, \<^verbatim>\<open>.count()\<close> is \<^const>\<open>length\<close>,
  \<^verbatim>\<open>.offset(n).limit(m).all()\<close> is \<open>take m (drop n rows)\<close>. An
  \<^verbatim>\<open>HTTPException\<close> is the left injection of a sum. Identifiers are strings, a
  \<^verbatim>\<open>DateTime\<close> is an integer time stamp and a \<^verbatim>\<open>Date\<close> an integer day number.
  Record fields carry a prefix naming their table, because a field name is a constant of
  the theory and several tables share the column names \<^verbatim>\<open>id\<close>, \<^verbatim>\<open>status\<close> and
  \<^verbatim>\<open>dog_id\<close>.
\<close>

text \<open>
  Modelled from the spec: \<^verbatim>\<open>UserRole\<close> is declared in \<^verbatim>\<open>app/models/user.py\<close>,
  which is not among the sources; the specification gives its members as
  \<^verbatim>\<open>USER\<close>, \<^verbatim>\<open>ADMIN\<close>, \<^verbatim>\<open>SUPER_ADMIN\<close>.
\<close>

datatype UserRole = USER | ADMIN | SUPER_ADMIN

datatype ReportStatus = DRAFT | PUBLIC | PRIVATE

text \<open>
  Modelled from the spec: \<^verbatim>\<open>ParticipantStatus\<close> is declared in
  \<^verbatim>\<open>app/models/walk_participant.py\<close>, which is not among the sources. The code compares a
  participation status with \<^verbatim>\<open>APPROVED\<close> only; every other member is \<open>NOT_APPROVED\<close>.
\<close>

datatype ParticipantStatus = APPROVED | NOT_APPROVED

record owner =
  o_id :: string
  o_user_id :: "string option"

record user =
  u_id :: string
  u_role :: UserRole
  u_owner :: "owner option"

record dog =
  d_id :: string
  d_owner_id :: string

record walk_event =
  e_id :: string
  e_created_by_user_id :: string

record walk_participant =
  p_event_id :: string
  p_owner_id :: string
  p_status :: ParticipantStatus

record walk_report =
  r_id :: string
  r_walk_event_id :: string
  r_author_user_id :: string
  r_title :: string
  r_content :: "string option"
  r_photos_json :: "string option"
  r_weather :: "string option"
  r_status :: ReportStatus
  r_created_at :: int

record health_record =
  h_id :: string
  h_dog_id :: string
  h_record_date :: int
  h_weight :: "real option"
  h_temperature :: "real option"
  h_health_status :: "string option"
  h_symptoms :: "string option"
  h_treatment :: "string option"
  h_notes :: "string option"
  h_vet_visit :: "string option"
  h_author_user_id :: string

record certificate =
  c_id :: string
  c_dog_id :: string
  c_cert_type :: string
  c_cert_number :: "string option"
  c_issuer :: string
  c_issued_on :: int
  c_expires_on :: "int option"
  c_file_url :: "string option"
  c_notes :: "string option"
  c_created_at :: int

record db =
  owners :: "owner list"
  dogs :: "dog list"
  walk_events :: "walk_event list"
  walk_participants :: "walk_participant list"
  walk_reports :: "walk_report list"
  health_records :: "health_record list"
  certificates :: "certificate list"

datatype http_error =
    HTTP_403_FORBIDDEN
  | HTTP_404_NOT_FOUND
  | HTTP_422_UNPROCESSABLE
  | IntegrityError

text \<open>
  Python truthiness of an optional string parameter: \<^verbatim>\<open>if walk_event_id:\<close> is false for
  \<^verbatim>\<open>None\<close> and for the empty string. A member of a plain \<^verbatim>\<open>enum.Enum\<close> is always
  true, so \<^verbatim>\<open>if status_filter:\<close> tests for \<^verbatim>\<open>None\<close> alone.
\<close>

fun truthy :: "string option \<Rightarrow> bool" where
  "truthy None = False"
| "truthy (Some s) = (s \<noteq> [])"

section \<open>Walk reports: permission predicates\<close>

text \<open>
  \<^verbatim>\<open>_can_create_report(db, user, event_id)\<close> and \<^verbatim>\<open>_can_view_report(db, user, report)\<close>;
  the leading underscore is dropped, an Isabelle name starts with a letter.
\<close>

definition can_create_report :: "db \<Rightarrow> user \<Rightarrow> string \<Rightarrow> bool" where
  "can_create_report d usr event_id =
     (if u_role usr \<in> set [ADMIN, SUPER_ADMIN] then True
      else
        (let event = find (\<lambda>e. e_id e = event_id) (walk_events d) in
         if (case event of None \<Rightarrow> False | Some e \<Rightarrow> e_created_by_user_id e = u_id usr) then True
         else
           (case u_owner usr of
              None \<Rightarrow> False
            | Some ow \<Rightarrow>
                (case find (\<lambda>p. p_event_id p = event_id \<and> p_owner_id p = o_id ow
                                \<and> p_status p = APPROVED) (walk_participants d) of
                   None \<Rightarrow> False
                 | Some participant \<Rightarrow> True))))"

definition can_view_report :: "db \<Rightarrow> user \<Rightarrow> walk_report \<Rightarrow> bool" where
  "can_view_report d usr report =
     (if r_status report = PUBLIC then True
      else if u_role usr \<in> set [ADMIN, SUPER_ADMIN] then True
      else if r_author_user_id report = u_id usr then True
      else False)"

section \<open>Walk reports: single-record handlers\<close>

record walk_report_create =
  rc_walk_event_id :: string
  rc_title :: string
  rc_content :: "string option"
  rc_photos_json :: "string option"
  rc_weather :: "string option"
  rc_status :: "ReportStatus option"

text \<open>
  \<^verbatim>\<open>create_walk_report\<close>. The primary key (\<^verbatim>\<open>uuid4\<close>) and the creation time
  (\<^verbatim>\<open>datetime.utcnow\<close>) are column defaults drawn from the environment; they are
  arguments here. A \<^verbatim>\<open>status\<close> of \<^verbatim>\<open>None\<close> is left out of the INSERT by the ORM, so the
  column default \<^verbatim>\<open>DRAFT\<close> applies. A primary key already present violates the key
  constraint at \<^verbatim>\<open>db.commit()\<close>.
\<close>

definition create_walk_report ::
  "db \<Rightarrow> user \<Rightarrow> walk_report_create \<Rightarrow> string \<Rightarrow> int \<Rightarrow> http_error + (walk_report \<times> db)" where
  "create_walk_report d current_user report_create new_id now =
     (case find (\<lambda>e. e_id e = rc_walk_event_id report_create) (walk_events d) of
        None \<Rightarrow> Inl HTTP_404_NOT_FOUND
      | Some event \<Rightarrow>
          if \<not> can_create_report d current_user (rc_walk_event_id report_create)
          then Inl HTTP_403_FORBIDDEN
          else
            (let db_report = \<lparr>
                   r_id = new_id,
                   r_walk_event_id = rc_walk_event_id report_create,
                   r_author_user_id = u_id current_user,
                   r_title = rc_title report_create,
                   r_content = rc_content report_create,
                   r_photos_json = rc_photos_json report_create,
                   r_weather = rc_weather report_create,
                   r_status = (case rc_status report_create of None \<Rightarrow> DRAFT | Some s \<Rightarrow> s),
                   r_created_at = now \<rparr>
             in if new_id \<in> set (map r_id (walk_reports d)) then Inl IntegrityError
                else Inr (db_report, d\<lparr>walk_reports := walk_reports d @ [db_report]\<rparr>)))"

definition get_walk_report :: "db \<Rightarrow> user \<Rightarrow> string \<Rightarrow> http_error + walk_report" where
  "get_walk_report d current_user report_id =
     (case find (\<lambda>r. r_id r = report_id) (walk_reports d) of
        None \<Rightarrow> Inl HTTP_404_NOT_FOUND
      | Some report \<Rightarrow>
          if \<not> can_view_report d current_user report then Inl HTTP_403_FORBIDDEN
          else Inr report)"

text \<open>
  \<^verbatim>\<open>WalkReportUpdate\<close> with \<^verbatim>\<open>dict(exclude_unset=True)\<close>: a field is absent
  (\<open>None\<close>), or present with a value that may itself be \<^verbatim>\<open>None\<close> (\<open>Some None\<close>).
  \<^verbatim>\<open>setattr\<close> writes every present field; \<^verbatim>\<open>title\<close> and \<^verbatim>\<open>status\<close> are
  \<^verbatim>\<open>nullable=False\<close>, so writing \<^verbatim>\<open>None\<close> there fails at \<^verbatim>\<open>db.commit()\<close>.
\<close>

record walk_report_update =
  ru_title :: "string option option"
  ru_content :: "string option option"
  ru_photos_json :: "string option option"
  ru_weather :: "string option option"
  ru_status :: "ReportStatus option option"

definition set_field :: "'a \<Rightarrow> 'a option \<Rightarrow> 'a" where
  "set_field old upd = (case upd of None \<Rightarrow> old | Some v \<Rightarrow> v)"

definition apply_update :: "walk_report \<Rightarrow> walk_report_update \<Rightarrow> http_error + walk_report" where
  "apply_update report report_update =
     (case (set_field (Some (r_title report)) (ru_title report_update),
            set_field (Some (r_status report)) (ru_status report_update)) of
        (Some title, Some st) \<Rightarrow>
          Inr (report\<lparr>
                 r_title := title,
                 r_content := set_field (r_content report) (ru_content report_update),
                 r_photos_json := set_field (r_photos_json report) (ru_photos_json report_update),
                 r_weather := set_field (r_weather report) (ru_weather report_update),
                 r_status := st \<rparr>)
      | _ \<Rightarrow> Inl IntegrityError)"

fun replace_first :: "('a \<Rightarrow> bool) \<Rightarrow> 'a \<Rightarrow> 'a list \<Rightarrow> 'a list" where
  "replace_first P y [] = []"
| "replace_first P y (x # xs) = (if P x then y # xs else x # replace_first P y xs)"

definition update_walk_report ::
  "db \<Rightarrow> user \<Rightarrow> string \<Rightarrow> walk_report_update \<Rightarrow> http_error + (walk_report \<times> db)" where
  "update_walk_report d current_user report_id report_update =
     (case find (\<lambda>r. r_id r = report_id) (walk_reports d) of
        None \<Rightarrow> Inl HTTP_404_NOT_FOUND
      | Some report \<Rightarrow>
          if r_author_user_id report \<noteq> u_id current_user then Inl HTTP_403_FORBIDDEN
          else
            (case apply_update report report_update of
               Inl e \<Rightarrow> Inl e
             | Inr report' \<Rightarrow>
                 Inr (report',
                      d\<lparr>walk_reports :=
                          replace_first (\<lambda>r. r_id r = report_id) report' (walk_reports d)\<rparr>)))"

definition delete_walk_report :: "db \<Rightarrow> user \<Rightarrow> string \<Rightarrow> http_error + db" where
  "delete_walk_report d current_user report_id =
     (case find (\<lambda>r. r_id r = report_id) (walk_reports d) of
        None \<Rightarrow> Inl HTTP_404_NOT_FOUND
      | Some report \<Rightarrow>
          if r_author_user_id report \<noteq> u_id current_user
             \<and> u_role current_user \<notin> set [ADMIN, SUPER_ADMIN]
          then Inl HTTP_403_FORBIDDEN
          else Inr (d\<lparr>walk_reports := remove1 report (walk_reports d)\<rparr>))"

section \<open>Ordering and paging\<close>

text \<open>
  \<^verbatim>\<open>ORDER BY key DESC\<close>. SQL fixes the order of two rows only when their keys differ;
  rows with equal keys come back in whatever order the store scans them. The model makes
  that dependence explicit: a stable descending sort of the rows in scan order.
\<close>

definition order_by_desc :: "('a \<Rightarrow> 'k::linorder) \<Rightarrow> 'a list \<Rightarrow> 'a list" where
  "order_by_desc key rows = rev (sort_key key (rev rows))"

text \<open>
  \<^verbatim>\<open>math.ceil(total / size)\<close>: the quotient is taken in the reals. Python computes it
  in double precision; with \<open>size \<le> 100\<close> the rounded quotient has the same ceiling for
  every total below \<open>2 ^ 46\<close>. The source's variables \<^verbatim>\<open>size\<close> and \<^verbatim>\<open>total\<close>
  are written \<open>size'\<close> and \<open>total'\<close>, the plain names being constants of HOL.
\<close>

definition ceil_div :: "int \<Rightarrow> int \<Rightarrow> int" where
  "ceil_div total' size' = \<lceil>real_of_int total' / real_of_int size'\<rceil>"

section \<open>Walk reports: list handlers\<close>

record walk_report_list_response =
  wl_items :: "walk_report list"
  wl_total :: int
  wl_page :: int
  wl_size :: int
  wl_pages :: int

text \<open>
  \<^verbatim>\<open>list_walk_reports\<close>. The declarations \<^verbatim>\<open>Query(1, ge=1)\<close> and
  \<^verbatim>\<open>Query(10, ge=1, le=100)\<close> of the signature reject other values before the body runs.
\<close>

definition list_walk_reports ::
  "db \<Rightarrow> user \<Rightarrow> string option \<Rightarrow> ReportStatus option \<Rightarrow> int \<Rightarrow> int
     \<Rightarrow> http_error + walk_report_list_response" where
  "list_walk_reports d current_user walk_event_id status_filter page size' =
     (if page < 1 \<or> size' < 1 \<or> 100 < size' then Inl HTTP_422_UNPROCESSABLE
      else
        (let query = walk_reports d;
             query = (if truthy walk_event_id
                      then filter (\<lambda>r. Some (r_walk_event_id r) = walk_event_id) query
                      else query);
             query =
               (if u_role current_user \<in> set [ADMIN, SUPER_ADMIN] then
                  (case status_filter of
                     Some sf \<Rightarrow> filter (\<lambda>r. r_status r = sf) query
                   | None \<Rightarrow> query)
                else
                  (case status_filter of
                     Some sf \<Rightarrow>
                       filter (\<lambda>r. (r_status r = PUBLIC \<or> r_author_user_id r = u_id current_user)
                                    \<and> r_status r = sf) query
                   | None \<Rightarrow>
                       filter (\<lambda>r. r_status r = PUBLIC \<or> r_author_user_id r = u_id current_user)
                         query));
             query = order_by_desc r_created_at query;
             total' = int (length query);
             offset = (page - 1) * size';
             reports = take (nat size') (drop (nat offset) query);
             pages = (if total' > 0 then ceil_div total' size' else 1)
         in Inr \<lparr>wl_items = reports, wl_total = total', wl_page = page, wl_size = size',
                  wl_pages = pages\<rparr>))"

definition list_event_reports ::
  "db \<Rightarrow> user \<Rightarrow> string \<Rightarrow> int \<Rightarrow> int \<Rightarrow> http_error + walk_report_list_response" where
  "list_event_reports d current_user event_id page size' =
     (if page < 1 \<or> size' < 1 \<or> 100 < size' then Inl HTTP_422_UNPROCESSABLE
      else
        (case find (\<lambda>e. e_id e = event_id) (walk_events d) of
           None \<Rightarrow> Inl HTTP_404_NOT_FOUND
         | Some event \<Rightarrow>
             (let query = filter (\<lambda>r. r_walk_event_id r = event_id) (walk_reports d);
                  query =
                    (if u_role current_user \<notin> set [ADMIN, SUPER_ADMIN]
                     then filter (\<lambda>r. r_status r = PUBLIC
                                       \<or> r_author_user_id r = u_id current_user) query
                     else query);
                  query = order_by_desc r_created_at query;
                  total' = int (length query);
                  offset = (page - 1) * size';
                  reports = take (nat size') (drop (nat offset) query);
                  pages = (if total' > 0 then ceil_div total' size' else 1)
              in Inr \<lparr>wl_items = reports, wl_total = total', wl_page = page, wl_size = size',
                       wl_pages = pages\<rparr>)))"

section \<open>Health records\<close>

text \<open>
  The health-record handlers return, beside their result, the tables against which a
  query was executed (\<^verbatim>\<open>.first()\<close>, \<^verbatim>\<open>.all()\<close>, \<^verbatim>\<open>.count()\<close>), in order.
  Building a query object (\<^verbatim>\<open>db.query(HealthRecord)\<close>, \<^verbatim>\<open>.filter\<close>,
  \<^verbatim>\<open>.order_by\<close>) executes nothing.
\<close>

datatype table = T_Owner | T_Dog | T_HealthRecord

definition get_user_dogs :: "db \<Rightarrow> user \<Rightarrow> dog list \<times> table list" where
  "get_user_dogs d usr =
     (if u_role usr \<in> set [ADMIN, SUPER_ADMIN] then (dogs d, [T_Dog])
      else
        (case find (\<lambda>ow. o_user_id ow = Some (u_id usr)) (owners d) of
           None \<Rightarrow> ([], [T_Owner])
         | Some ow \<Rightarrow> (filter (\<lambda>dg. d_owner_id dg = o_id ow) (dogs d), [T_Owner, T_Dog])))"

definition check_dog_access :: "db \<Rightarrow> user \<Rightarrow> string \<Rightarrow> bool \<times> table list" where
  "check_dog_access d usr dog_id =
     (let (user_dogs, queried) = get_user_dogs d usr
      in (list_ex (\<lambda>dg. d_id dg = dog_id) user_dogs, queried))"

record health_record_create =
  hc_dog_id :: string
  hc_record_date :: int
  hc_weight :: "real option"
  hc_temperature :: "real option"
  hc_health_status :: "string option"
  hc_symptoms :: "string option"
  hc_treatment :: "string option"
  hc_notes :: "string option"
  hc_vet_visit :: "string option"

definition create_health_record ::
  "db \<Rightarrow> user \<Rightarrow> health_record_create \<Rightarrow> string
     \<Rightarrow> (http_error + (health_record \<times> db)) \<times> table list" where
  "create_health_record d current_user health_create new_id =
     (if u_role current_user \<notin> set [ADMIN, SUPER_ADMIN] then (Inl HTTP_403_FORBIDDEN, [])
      else
        (case find (\<lambda>dg. d_id dg = hc_dog_id health_create) (dogs d) of
           None \<Rightarrow> (Inl HTTP_404_NOT_FOUND, [T_Dog])
         | Some dg \<Rightarrow>
             (let db_record = \<lparr>
                    h_id = new_id,
                    h_dog_id = hc_dog_id health_create,
                    h_record_date = hc_record_date health_create,
                    h_weight = hc_weight health_create,
                    h_temperature = hc_temperature health_create,
                    h_health_status = hc_health_status health_create,
                    h_symptoms = hc_symptoms health_create,
                    h_treatment = hc_treatment health_create,
                    h_notes = hc_notes health_create,
                    h_vet_visit = hc_vet_visit health_create,
                    h_author_user_id = u_id current_user \<rparr>
              in if new_id \<in> set (map h_id (health_records d))
                 then (Inl IntegrityError, [T_Dog, T_HealthRecord])
                 else (Inr (db_record, d\<lparr>health_records := health_records d @ [db_record]\<rparr>),
                       [T_Dog, T_HealthRecord]))))"

record health_record_list_response =
  hl_items :: "health_record list"
  hl_total :: int
  hl_page :: int
  hl_size :: int
  hl_pages :: int

text \<open>
  \<^verbatim>\<open>list_health_records\<close>. \<^verbatim>\<open>if dog_id:\<close> is Python truthiness of an optional
  string; a \<^verbatim>\<open>date\<close> object is always true, so \<^verbatim>\<open>if date_from:\<close> tests for
  \<^verbatim>\<open>None\<close>. The order is \<^verbatim>\<open>record_date DESC, id DESC\<close>: descending in the
  lexicographic order of the pair.
\<close>

definition list_health_records ::
  "db \<Rightarrow> user \<Rightarrow> string option \<Rightarrow> int option \<Rightarrow> int option \<Rightarrow> int \<Rightarrow> int
     \<Rightarrow> (http_error + health_record_list_response) \<times> table list" where
  "list_health_records d current_user dog_id date_from date_to page size' =
     (if page < 1 \<or> size' < 1 \<or> 100 < size' then (Inl HTTP_422_UNPROCESSABLE, [])
      else
        (let query = health_records d;
             (user_dogs, queried) =
               (if u_role current_user = USER then get_user_dogs d current_user else ([], []))
         in
           if u_role current_user = USER \<and> user_dogs = [] then
             (Inr \<lparr>hl_items = [], hl_total = 0, hl_page = page, hl_size = size', hl_pages = 1\<rparr>,
              queried)
           else
             (let query =
                    (if u_role current_user = USER
                     then filter (\<lambda>h. h_dog_id h \<in> set (map d_id user_dogs)) query
                     else query);
                  (access, queried2) =
                    (if truthy dog_id \<and> u_role current_user = USER
                     then check_dog_access d current_user (case dog_id of Some i \<Rightarrow> i | None \<Rightarrow> [])
                     else (True, []))
              in
                if truthy dog_id \<and> u_role current_user = USER \<and> \<not> access then
                  (Inl HTTP_403_FORBIDDEN, queried @ queried2)
                else
                  (let query =
                         (if truthy dog_id
                          then filter (\<lambda>h. Some (h_dog_id h) = dog_id) query
                          else query);
                       query =
                         (case date_from of
                            Some df \<Rightarrow> filter (\<lambda>h. h_record_date h \<ge> df) query
                          | None \<Rightarrow> query);
                       query =
                         (case date_to of
                            Some dt \<Rightarrow> filter (\<lambda>h. h_record_date h \<le> dt) query
                          | None \<Rightarrow> query);
                       query = order_by_desc (\<lambda>h. (h_record_date h, h_id h)) query;
                       total' = int (length query);
                       offset = (page - 1) * size';
                       records = take (nat size') (drop (nat offset) query);
                       pages = (if total' > 0 then ceil_div total' size' else 1)
                   in (Inr \<lparr>hl_items = records, hl_total = total', hl_page = page,
                             hl_size = size', hl_pages = pages\<rparr>,
                       queried @ queried2 @ [T_HealthRecord, T_HealthRecord])))))"

definition get_health_record ::
  "db \<Rightarrow> user \<Rightarrow> string \<Rightarrow> (http_error + health_record) \<times> table list" where
  "get_health_record d current_user record_id =
     (case find (\<lambda>h. h_id h = record_id) (health_records d) of
        None \<Rightarrow> (Inl HTTP_404_NOT_FOUND, [T_HealthRecord])
      | Some record \<Rightarrow>
          if u_role current_user = USER then
            (let (access, queried) = check_dog_access d current_user (h_dog_id record)
             in if \<not> access then (Inl HTTP_403_FORBIDDEN, T_HealthRecord # queried)
                else (Inr record, T_HealthRecord # queried))
          else (Inr record, [T_HealthRecord]))"

section \<open>Certificates\<close>

text \<open>
  Two filters of \<^verbatim>\<open>get_certificates\<close> are evaluated by the store and are arguments of
  the model: \<^verbatim>\<open>ILIKE\<close> pattern matching (column value, pattern) and the comparison of
  a \<^verbatim>\<open>Date\<close> column with the caller's date string. A comparison with a \<^verbatim>\<open>NULL\<close>
  \<^verbatim>\<open>expires_on\<close> selects nothing.
\<close>

record store_ops =
  ilike :: "string \<Rightarrow> string \<Rightarrow> bool"
  date_ge :: "int \<Rightarrow> string \<Rightarrow> bool"
  date_le :: "int \<Rightarrow> string \<Rightarrow> bool"

record paginated_response =
  pr_items :: "certificate list"
  pr_total :: int
  pr_page :: int
  pr_per_page :: int
  pr_pages :: int

text \<open>
  The functions of \<^verbatim>\<open>certificate_service.py\<close> carry the prefix \<open>service_\<close>; the
  route handlers of the same names keep theirs. The service is reached through the
  handler only, with \<open>0 \<le> skip\<close> and \<open>1 \<le> limit \<le> 1000\<close>.
\<close>

definition service_get_certificate :: "db \<Rightarrow> string \<Rightarrow> certificate option" where
  "service_get_certificate d certificate_id =
     find (\<lambda>c. c_id c = certificate_id) (certificates d)"

definition service_get_certificates ::
  "store_ops \<Rightarrow> db \<Rightarrow> int \<Rightarrow> int \<Rightarrow> string option \<Rightarrow> string option \<Rightarrow> string option
     \<Rightarrow> string option \<Rightarrow> string option \<Rightarrow> paginated_response" where
  "service_get_certificates ops d skip limit dog_id cert_type issuer expires_after expires_before =
     (let query = certificates d;
          query = (if truthy dog_id
                   then filter (\<lambda>c. Some (c_dog_id c) = dog_id) query else query);
          query = (if truthy cert_type
                   then filter (\<lambda>c. Some (c_cert_type c) = cert_type) query else query);
          query = (case issuer of
                     Some i \<Rightarrow>
                       if i \<noteq> [] then filter (\<lambda>c. ilike ops (c_issuer c) (''%'' @ i @ ''%'')) query
                       else query
                   | None \<Rightarrow> query);
          query = (case expires_after of
                     Some a \<Rightarrow>
                       if a \<noteq> []
                       then filter (\<lambda>c. case c_expires_on c of
                                          None \<Rightarrow> False | Some e \<Rightarrow> date_ge ops e a) query
                       else query
                   | None \<Rightarrow> query);
          query = (case expires_before of
                     Some b \<Rightarrow>
                       if b \<noteq> []
                       then filter (\<lambda>c. case c_expires_on c of
                                          None \<Rightarrow> False | Some e \<Rightarrow> date_le ops e b) query
                       else query
                   | None \<Rightarrow> query);
          total' = int (length query);
          items = take (nat limit) (drop (nat skip) query);
          pages = (if limit > 0 then (total' + limit - 1) div limit else 1);
          page = (if limit > 0 then skip div limit + 1 else 1)
      in \<lparr>pr_items = items, pr_total = total', pr_page = page, pr_per_page = limit,
           pr_pages = pages\<rparr>)"

definition get_certificates ::
  "store_ops \<Rightarrow> db \<Rightarrow> user \<Rightarrow> int \<Rightarrow> int \<Rightarrow> string option \<Rightarrow> string option \<Rightarrow> string option
     \<Rightarrow> string option \<Rightarrow> string option \<Rightarrow> http_error + paginated_response" where
  "get_certificates ops d current_user skip limit dog_id cert_type issuer expires_after
       expires_before =
     (if skip < 0 \<or> limit < 1 \<or> 1000 < limit then Inl HTTP_422_UNPROCESSABLE
      else Inr (service_get_certificates ops d skip limit dog_id cert_type issuer expires_after
                  expires_before))"

definition get_certificate :: "db \<Rightarrow> user \<Rightarrow> string \<Rightarrow> http_error + certificate" where
  "get_certificate d current_user certificate_id =
     (case service_get_certificate d certificate_id of
        None \<Rightarrow> Inl HTTP_404_NOT_FOUND
      | Some certificate \<Rightarrow> Inr certificate)"

section \<open>Example data\<close>

definition ex_owner1 :: owner where "ex_owner1 = \<lparr>o_id = ''o1'', o_user_id = Some ''u1''\<rparr>"
definition ex_owner2 :: owner where "ex_owner2 = \<lparr>o_id = ''o2'', o_user_id = Some ''u3''\<rparr>"
definition ex_user1 :: user where "ex_user1 = \<lparr>u_id = ''u1'', u_role = USER, u_owner = Some ex_owner1\<rparr>"
definition ex_user2 :: user where "ex_user2 = \<lparr>u_id = ''u2'', u_role = USER, u_owner = None\<rparr>"
definition ex_admin :: user where "ex_admin = \<lparr>u_id = ''a1'', u_role = ADMIN, u_owner = None\<rparr>"

definition ex_report :: "string \<Rightarrow> string \<Rightarrow> ReportStatus \<Rightarrow> int \<Rightarrow> walk_report" where
  "ex_report i author st t = \<lparr>r_id = i, r_walk_event_id = ''e1'', r_author_user_id = author,
     r_title = ''walk'', r_content = None, r_photos_json = None, r_weather = None,
     r_status = st, r_created_at = t\<rparr>"

definition ex_health :: "string \<Rightarrow> string \<Rightarrow> int \<Rightarrow> health_record" where
  "ex_health i dg day = \<lparr>h_id = i, h_dog_id = dg, h_record_date = day, h_weight = None,
     h_temperature = None, h_health_status = None, h_symptoms = None, h_treatment = None,
     h_notes = None, h_vet_visit = None, h_author_user_id = ''a1''\<rparr>"

definition ex_certificate :: certificate where
  "ex_certificate = \<lparr>c_id = ''c1'', c_dog_id = ''d2'', c_cert_type = ''rabies'',
     c_cert_number = None, c_issuer = ''city'', c_issued_on = 1, c_expires_on = Some 400,
     c_file_url = None, c_notes = None, c_created_at = 3\<rparr>"

definition ex_db :: db where
  "ex_db = \<lparr>owners = [ex_owner1, ex_owner2],
     dogs = [\<lparr>d_id = ''d1'', d_owner_id = ''o1''\<rparr>, \<lparr>d_id = ''d2'', d_owner_id = ''o2''\<rparr>],
     walk_events = [\<lparr>e_id = ''e1'', e_created_by_user_id = ''u9''\<rparr>],
     walk_participants = [\<lparr>p_event_id = ''e1'', p_owner_id = ''o1'', p_status = APPROVED\<rparr>],
     walk_reports = [ex_report ''r1'' ''u1'' PRIVATE 5, ex_report ''r2'' ''u2'' PRIVATE 5,
                     ex_report ''r3'' ''u2'' PUBLIC 7],
     health_records = [ex_health ''h1'' ''d2'' 10, ex_health ''h2'' ''d1'' 10,
                       ex_health ''h3'' ''d1'' 12],
     certificates = [ex_certificate]\<rparr>"



text \<open>
  A store whose \<^verbatim>\<open>ILIKE\<close> matches the pattern \<^verbatim>\<open>%v%\<close> against the value \<open>v\<close> only
  and whose date comparisons read the string as a day number written in unary; the
  examples pass neither an issuer nor a date filter.
\<close>

definition ex_ops :: store_ops where
  "ex_ops = \<lparr>ilike = (\<lambda>v pattern. pattern = ''%'' @ v @ ''%''),
              date_ge = (\<lambda>day s. int (length s) \<le> day),
              date_le = (\<lambda>day s. day \<le> int (length s))\<rparr>"

definition ex_health_create :: health_record_create where
  "ex_health_create = \<lparr>hc_dog_id = ''d7'', hc_record_date = 11, hc_weight = None,
     hc_temperature = None, hc_health_status = None, hc_symptoms = None, hc_treatment = None,
     hc_notes = None, hc_vet_visit = None\<rparr>"

definition ex_update :: walk_report_update where
  "ex_update = \<lparr>ru_title = Some (Some ''new''), ru_content = None, ru_photos_json = None,
                 ru_weather = None, ru_status = None\<rparr>"

section \<open>Walk reports: who may update, delete, view and create\<close>

lemma apply_update_ok:
  "ru_title upd \<noteq> Some None \<Longrightarrow> ru_status upd \<noteq> Some None \<Longrightarrow> \<exists>r'. apply_update r upd = Inr r'"
  by (auto simp: apply_update_def set_field_def split: option.splits)

lemma apply_update_not_403: "apply_update r upd \<noteq> Inl HTTP_403_FORBIDDEN"
  by (auto simp: apply_update_def set_field_def split: option.splits)

text \<open>
  C1. For a report that exists, \<^verbatim>\<open>update_walk_report\<close> answers 403 exactly when the
  caller is not the report's author, whatever the caller's role: an \<^verbatim>\<open>ADMIN\<close> or
  \<^verbatim>\<open>SUPER_ADMIN\<close> who did not write the report is refused, and the author's update goes
  through whenever it does not null a mandatory column.
\<close>

theorem update_walk_report_author_only:
  assumes "find (\<lambda>r. r_id r = report_id) (walk_reports d) = Some report"
  shows "(update_walk_report d current_user report_id report_update \<noteq> Inl HTTP_403_FORBIDDEN)
           = (r_author_user_id report = u_id current_user)
       \<and> (u_role current_user \<in> {ADMIN, SUPER_ADMIN}
            \<and> r_author_user_id report \<noteq> u_id current_user
          \<longrightarrow> update_walk_report d current_user report_id report_update = Inl HTTP_403_FORBIDDEN)
       \<and> (r_author_user_id report = u_id current_user
            \<and> ru_title report_update \<noteq> Some None \<and> ru_status report_update \<noteq> Some None
          \<longrightarrow> (\<exists>r' d'. update_walk_report d current_user report_id report_update = Inr (r', d')))"
proof -
  have denied: "update_walk_report d current_user report_id report_update = Inl HTTP_403_FORBIDDEN"
    if "r_author_user_id report \<noteq> u_id current_user"
    using assms that by (simp add: update_walk_report_def)
  have allowed: "update_walk_report d current_user report_id report_update \<noteq> Inl HTTP_403_FORBIDDEN"
    if "r_author_user_id report = u_id current_user"
    using assms that apply_update_not_403 [of report report_update]
    by (auto simp: update_walk_report_def split: sum.splits)
  have success: "\<exists>r' d'. update_walk_report d current_user report_id report_update = Inr (r', d')"
    if "r_author_user_id report = u_id current_user"
       "ru_title report_update \<noteq> Some None" "ru_status report_update \<noteq> Some None"
    using assms that apply_update_ok [of report_update report]
    by (auto simp: update_walk_report_def split: sum.splits)
  from denied allowed success show ?thesis by blast
qed

theorem update_walk_report_author_only_witness:
  "update_walk_report ex_db ex_admin ''r1'' ex_update = Inl HTTP_403_FORBIDDEN
   \<and> update_walk_report ex_db ex_user1 ''r1'' ex_update \<noteq> Inl HTTP_403_FORBIDDEN"
  using update_walk_report_author_only [of "''r1''" ex_db "ex_report ''r1'' ''u1'' PRIVATE 5" ex_admin ex_update]
    update_walk_report_author_only [of "''r1''" ex_db "ex_report ''r1'' ''u1'' PRIVATE 5" ex_user1 ex_update]
  by (simp add: ex_db_def ex_admin_def ex_user1_def ex_report_def)

text \<open>
  C2. For a report that exists, \<^verbatim>\<open>delete_walk_report\<close> succeeds exactly when the caller
  is the author or has role \<^verbatim>\<open>ADMIN\<close> or \<^verbatim>\<open>SUPER_ADMIN\<close>, and answers 403 otherwise;
  an elevated caller who is not the author can delete the report but not update it.
\<close>

theorem delete_walk_report_author_or_admin:
  assumes "find (\<lambda>r. r_id r = report_id) (walk_reports d) = Some report"
  shows "(\<exists>d'. delete_walk_report d current_user report_id = Inr d')
           = (r_author_user_id report = u_id current_user
              \<or> u_role current_user = ADMIN \<or> u_role current_user = SUPER_ADMIN)
       \<and> ((\<nexists>d'. delete_walk_report d current_user report_id = Inr d')
            \<longrightarrow> delete_walk_report d current_user report_id = Inl HTTP_403_FORBIDDEN)
       \<and> (r_author_user_id report \<noteq> u_id current_user
            \<and> (u_role current_user = ADMIN \<or> u_role current_user = SUPER_ADMIN)
          \<longrightarrow> (\<exists>d'. delete_walk_report d current_user report_id = Inr d')
              \<and> update_walk_report d current_user report_id report_update = Inl HTTP_403_FORBIDDEN)"
  using assms by (auto simp: delete_walk_report_def update_walk_report_def)

theorem delete_walk_report_author_or_admin_witness:
  "(\<exists>d'. delete_walk_report ex_db ex_admin ''r1'' = Inr d')
   \<and> update_walk_report ex_db ex_admin ''r1'' ex_update = Inl HTTP_403_FORBIDDEN
   \<and> delete_walk_report ex_db ex_user2 ''r1'' = Inl HTTP_403_FORBIDDEN"
  using delete_walk_report_author_or_admin [of "''r1''" ex_db "ex_report ''r1'' ''u1'' PRIVATE 5" ex_admin ex_update]
   delete_walk_report_author_or_admin [of "''r1''" ex_db "ex_report ''r1'' ''u1'' PRIVATE 5" ex_user2 ex_update]
  by (simp add: ex_db_def ex_admin_def ex_user2_def ex_report_def)

lemma find_Some_holds: "find P xs = Some x \<Longrightarrow> x \<in> set xs \<and> P x"
  by (induction xs) (auto split: if_splits)

lemma find_is_Some: "(\<exists>x. find P xs = Some x) = (\<exists>x \<in> set xs. P x)"
  using find_None_iff [of P xs] by auto

text \<open>
  C3. \<^verbatim>\<open>_can_view_report\<close> holds exactly when the report is \<^verbatim>\<open>PUBLIC\<close>, or the caller
  is \<^verbatim>\<open>ADMIN\<close> or \<^verbatim>\<open>SUPER_ADMIN\<close>, or the caller is the author. For role \<^verbatim>\<open>USER\<close>
  the answer is fixed by authorship and status: an author sees the report in every status,
  anyone else sees it only when it is \<^verbatim>\<open>PUBLIC\<close>.
\<close>

theorem can_view_report_matrix:
  "can_view_report d usr report
     = (r_status report = PUBLIC \<or> u_role usr = ADMIN \<or> u_role usr = SUPER_ADMIN
        \<or> r_author_user_id report = u_id usr)
   \<and> (u_role usr = USER \<longrightarrow>
        can_view_report d usr report
          = (r_status report = PUBLIC \<or> r_author_user_id report = u_id usr)
        \<and> (r_author_user_id report = u_id usr \<longrightarrow> can_view_report d usr report)
        \<and> (r_author_user_id report \<noteq> u_id usr \<and> r_status report = DRAFT
             \<longrightarrow> \<not> can_view_report d usr report)
        \<and> (r_author_user_id report \<noteq> u_id usr \<and> r_status report = PUBLIC
             \<longrightarrow> can_view_report d usr report)
        \<and> (r_author_user_id report \<noteq> u_id usr \<and> r_status report = PRIVATE
             \<longrightarrow> \<not> can_view_report d usr report))"
  by (cases "r_status report") (auto simp: can_view_report_def)

theorem can_view_report_matrix_witness:
  "can_view_report ex_db ex_user1 (ex_report ''r1'' ''u1'' DRAFT 5)
   \<and> can_view_report ex_db ex_user1 (ex_report ''r1'' ''u1'' PUBLIC 5)
   \<and> can_view_report ex_db ex_user1 (ex_report ''r1'' ''u1'' PRIVATE 5)
   \<and> \<not> can_view_report ex_db ex_user1 (ex_report ''r2'' ''u2'' DRAFT 5)
   \<and> can_view_report ex_db ex_user1 (ex_report ''r2'' ''u2'' PUBLIC 5)
   \<and> \<not> can_view_report ex_db ex_user1 (ex_report ''r2'' ''u2'' PRIVATE 5)"
  using can_view_report_matrix [of ex_db ex_user1 "ex_report ''r1'' ''u1'' DRAFT 5"]
    can_view_report_matrix [of ex_db ex_user1 "ex_report ''r1'' ''u1'' PUBLIC 5"]
    can_view_report_matrix [of ex_db ex_user1 "ex_report ''r1'' ''u1'' PRIVATE 5"]
    can_view_report_matrix [of ex_db ex_user1 "ex_report ''r2'' ''u2'' DRAFT 5"]
    can_view_report_matrix [of ex_db ex_user1 "ex_report ''r2'' ''u2'' PUBLIC 5"]
    can_view_report_matrix [of ex_db ex_user1 "ex_report ''r2'' ''u2'' PRIVATE 5"]
  by (simp add: ex_user1_def ex_report_def)

text \<open>
  C4. For an event that exists, \<^verbatim>\<open>_can_create_report\<close> holds exactly when one of three
  conditions holds: the caller's role is elevated, the caller created the event, or the
  caller has a linked owner with an \<^verbatim>\<open>APPROVED\<close> participation row for the event.
\<close>

theorem can_create_report_three_conditions:
  assumes "find (\<lambda>e. e_id e = event_id) (walk_events d) = Some event"
  shows "can_create_report d usr event_id
           = (u_role usr = ADMIN \<or> u_role usr = SUPER_ADMIN
              \<or> e_created_by_user_id event = u_id usr
              \<or> (\<exists>ow. u_owner usr = Some ow
                    \<and> (\<exists>p \<in> set (walk_participants d).
                          p_event_id p = event_id \<and> p_owner_id p = o_id ow \<and> p_status p = APPROVED)))"
proof (cases "u_owner usr")
  case None
  with assms show ?thesis by (simp add: can_create_report_def)
next
  case (Some ow)
  have "(\<exists>p. find (\<lambda>p. p_event_id p = event_id \<and> p_owner_id p = o_id ow \<and> p_status p = APPROVED)
               (walk_participants d) = Some p)
        = (\<exists>p \<in> set (walk_participants d).
             p_event_id p = event_id \<and> p_owner_id p = o_id ow \<and> p_status p = APPROVED)"
    by (rule find_is_Some)
  with assms Some show ?thesis
    by (auto simp: can_create_report_def split: option.splits)
qed

theorem can_create_report_three_conditions_witness:
  "can_create_report ex_db ex_user1 ''e1'' \<and> \<not> can_create_report ex_db ex_user2 ''e1''
   \<and> can_create_report ex_db ex_admin ''e1''"
  using can_create_report_three_conditions [of "''e1''" ex_db "\<lparr>e_id = ''e1'', e_created_by_user_id = ''u9''\<rparr>" ex_user1]
   can_create_report_three_conditions [of "''e1''" ex_db "\<lparr>e_id = ''e1'', e_created_by_user_id = ''u9''\<rparr>" ex_user2]
   can_create_report_three_conditions [of "''e1''" ex_db "\<lparr>e_id = ''e1'', e_created_by_user_id = ''u9''\<rparr>" ex_admin]
  by (simp add: ex_db_def ex_user1_def ex_user2_def ex_admin_def ex_owner1_def)

section \<open>Ordering and paging: auxiliary facts\<close>

lemma set_order_by_desc: "set (order_by_desc key rows) = set rows"
  by (simp add: order_by_desc_def)

lemma length_order_by_desc: "length (order_by_desc key rows) = length rows"
  by (simp add: order_by_desc_def)

lemma page_subset: "set (take n (drop m xs)) \<subseteq> set xs"
  by (meson set_take_subset set_drop_subset subset_trans)

lemma page_covers:
  assumes "x \<in> set xs" "0 < n"
  shows "\<exists>k. x \<in> set (take n (drop (k * n) xs))"
proof -
  from assms(1) obtain i where i: "i < length xs" "xs ! i = x"
    by (auto simp: in_set_conv_nth)
  define m where "m = i div n * n"
  define a where "a = i mod n"
  have sum: "m + a = i" by (simp add: m_def a_def)
  have "a < n" using assms(2) by (simp add: a_def)
  moreover have "a < length xs - m" using i(1) sum by linarith
  ultimately have len: "a < length (take n (drop m xs))" by simp
  moreover have "m \<le> length xs" using i(1) sum by linarith
  ultimately have "take n (drop m xs) ! a = x"
    using i(2) sum by simp
  with len have "x \<in> set (take n (drop m xs))" by (metis nth_mem)
  then show ?thesis unfolding m_def by blast
qed

lemma page_beyond: "int (length xs) \<le> off \<Longrightarrow> take n (drop (nat off) xs) = []"
  by simp

lemma neg_div_eq:
  fixes s t :: int
  assumes "0 < s"
  shows "- ((- t) div s) = (t + s - 1) div s"
proof -
  define q where "q = (t + s - 1) div s"
  define r where "r = (t + s - 1) mod s"
  have "t + s - 1 = s * q + r" by (simp add: q_def r_def)
  then have eq: "- t = s * (- q) + (s - 1 - r)" by (simp add: algebra_simps)
  have "0 \<le> r" "r < s" using assms by (simp_all add: r_def)
  then have "0 \<le> s - 1 - r" "s - 1 - r < s" by simp_all
  with eq have "(- t) div s = - q" by (rule int_div_pos_eq)
  then show ?thesis by (simp add: q_def)
qed

lemma ceil_div_eq: "0 < s \<Longrightarrow> ceil_div t s = (t + s - 1) div s"
  unfolding ceil_div_def by (simp add: ceiling_divide_eq_div neg_div_eq)

lemma ceil_div_bounds:
  assumes "0 < s" "0 \<le> t"
  shows "t \<le> ceil_div t s * s"
proof -
  have "(t + s - 1) mod s < s" using assms by simp
  moreover have "(t + s - 1) div s * s + (t + s - 1) mod s = t + s - 1" by simp
  ultimately have "t \<le> (t + s - 1) div s * s" by linarith
  then show ?thesis using assms by (simp add: ceil_div_eq)
qed

lemma beyond_last_page:
  assumes "0 < s" "pages = (if 0 < int (length xs) then ceil_div (int (length xs)) s else 1)"
    "pages < page"
  shows "take (nat s) (drop (nat ((page - 1) * s)) xs) = []"
proof -
  have "int (length xs) \<le> pages * s"
    using assms(1,2) ceil_div_bounds [of s "int (length xs)"] by (auto split: if_splits)
  also have "\<dots> \<le> (page - 1) * s" using assms(1,3) by (simp add: mult_right_mono)
  finally show ?thesis by simp
qed


lemma sorted_order_by_desc: "sorted_wrt (\<lambda>a b. key b \<le> key a) (order_by_desc key rows)"
proof -
  have "sorted (map key (sort_key key (rev rows)))" by simp
  then have "sorted_wrt (\<lambda>a b. key a \<le> key b) (sort_key key (rev rows))"
    by (simp only: sorted_map)
  then show ?thesis
    unfolding order_by_desc_def by (simp only: sorted_wrt_rev)
qed

lemma sorted_by_date_then_id:
  "sorted_wrt (\<lambda>a b. h_record_date b < h_record_date a
                   \<or> (h_record_date b = h_record_date a \<and> h_id b \<le> h_id a))
     (order_by_desc (\<lambda>h. (h_record_date h, h_id h)) rows)"
proof -
  have "sorted_wrt (\<lambda>a b. (h_record_date b, h_id b) \<le> (h_record_date a, h_id a))
          (order_by_desc (\<lambda>h. (h_record_date h, h_id h)) rows)"
    by (rule sorted_order_by_desc)
  then show ?thesis
    by (rule sorted_wrt_mono_rel [rotated]) (auto simp: less_eq_prod_def)
qed

lemma list_walk_reports_shape:
  assumes "list_walk_reports d usr ev sf page size' = Inr resp"
  shows "\<exists>q. set q \<subseteq> set (walk_reports d) \<and> sorted_wrt (\<lambda>a b. r_created_at b \<le> r_created_at a) q
           \<and> 1 \<le> page \<and> 1 \<le> size' \<and> size' \<le> 100
           \<and> (\<forall>page'. 1 \<le> page' \<longrightarrow>
                 list_walk_reports d usr ev sf page' size'
                   = Inr \<lparr>wl_items = take (nat size') (drop (nat ((page' - 1) * size')) q),
                          wl_total = int (length q), wl_page = page', wl_size = size',
                          wl_pages = (if 0 < int (length q) then ceil_div (int (length q)) size'
                                      else 1)\<rparr>)"
proof -
  from assms have valid: "1 \<le> page" "1 \<le> size'" "size' \<le> 100"
    by (auto simp: list_walk_reports_def split: if_splits)
  define q0 where "q0 = (if truthy ev
                      then filter (\<lambda>r. Some (r_walk_event_id r) = ev) (walk_reports d)
                      else walk_reports d)"
  define q1 where "q1 =
               (if u_role usr \<in> set [ADMIN, SUPER_ADMIN] then
                  (case sf of
                     Some s \<Rightarrow> filter (\<lambda>r. r_status r = s) q0
                   | None \<Rightarrow> q0)
                else
                  (case sf of
                     Some s \<Rightarrow>
                       filter (\<lambda>r. (r_status r = PUBLIC \<or> r_author_user_id r = u_id usr)
                                    \<and> r_status r = s) q0
                   | None \<Rightarrow>
                       filter (\<lambda>r. r_status r = PUBLIC \<or> r_author_user_id r = u_id usr) q0))"
  define q where "q = order_by_desc r_created_at q1"
  have "set q0 \<subseteq> set (walk_reports d)" by (auto simp: q0_def)
  moreover have "set q1 \<subseteq> set q0" by (auto simp: q1_def split: option.splits)
  ultimately have sub: "set q \<subseteq> set (walk_reports d)"
    by (auto simp: q_def set_order_by_desc)
  have "list_walk_reports d usr ev sf page' size'
          = Inr \<lparr>wl_items = take (nat size') (drop (nat ((page' - 1) * size')) q),
                 wl_total = int (length q), wl_page = page', wl_size = size',
                 wl_pages = (if 0 < int (length q) then ceil_div (int (length q)) size' else 1)\<rparr>"
    if "1 \<le> page'" for page'
    using that valid unfolding list_walk_reports_def Let_def q_def q1_def q0_def by simp
  moreover have "sorted_wrt (\<lambda>a b. r_created_at b \<le> r_created_at a) q"
    unfolding q_def by (rule sorted_order_by_desc)
  ultimately show ?thesis using sub valid by blast
qed


lemma list_event_reports_shape:
  assumes "list_event_reports d usr event_id page size' = Inr resp"
  shows "\<exists>q. set q \<subseteq> set (walk_reports d) \<and> sorted_wrt (\<lambda>a b. r_created_at b \<le> r_created_at a) q
           \<and> 1 \<le> page \<and> 1 \<le> size' \<and> size' \<le> 100
           \<and> (\<forall>page'. 1 \<le> page' \<longrightarrow>
                 list_event_reports d usr event_id page' size'
                   = Inr \<lparr>wl_items = take (nat size') (drop (nat ((page' - 1) * size')) q),
                          wl_total = int (length q), wl_page = page', wl_size = size',
                          wl_pages = (if 0 < int (length q) then ceil_div (int (length q)) size'
                                      else 1)\<rparr>)"
proof -
  from assms have valid: "1 \<le> page" "1 \<le> size'" "size' \<le> 100"
    by (auto simp: list_event_reports_def split: if_splits)
  from assms valid obtain event where ev: "find (\<lambda>e. e_id e = event_id) (walk_events d) = Some event"
    by (auto simp: list_event_reports_def split: option.splits)
  define q0 where "q0 = filter (\<lambda>r. r_walk_event_id r = event_id) (walk_reports d)"
  define q1 where "q1 =
                    (if u_role usr \<notin> set [ADMIN, SUPER_ADMIN]
                     then filter (\<lambda>r. r_status r = PUBLIC
                                       \<or> r_author_user_id r = u_id usr) q0
                     else q0)"
  define q where "q = order_by_desc r_created_at q1"
  have "set q0 \<subseteq> set (walk_reports d)" by (auto simp: q0_def)
  moreover have "set q1 \<subseteq> set q0" by (auto simp: q1_def)
  ultimately have sub: "set q \<subseteq> set (walk_reports d)"
    by (auto simp: q_def set_order_by_desc)
  have "list_event_reports d usr event_id page' size'
          = Inr \<lparr>wl_items = take (nat size') (drop (nat ((page' - 1) * size')) q),
                 wl_total = int (length q), wl_page = page', wl_size = size',
                 wl_pages = (if 0 < int (length q) then ceil_div (int (length q)) size' else 1)\<rparr>"
    if "1 \<le> page'" for page'
    using that valid ev unfolding list_event_reports_def Let_def q_def q1_def q0_def by simp
  moreover have "sorted_wrt (\<lambda>a b. r_created_at b \<le> r_created_at a) q"
    unfolding q_def by (rule sorted_order_by_desc)
  ultimately show ?thesis using sub valid by blast
qed

lemma list_health_records_shape:
  assumes "fst (list_health_records d usr dog_id date_from date_to page size') = Inr resp"
  shows "\<exists>q. set q \<subseteq> set (health_records d)
           \<and> sorted_wrt (\<lambda>a b. h_record_date b < h_record_date a
                              \<or> (h_record_date b = h_record_date a \<and> h_id b \<le> h_id a)) q
           \<and> 1 \<le> page \<and> 1 \<le> size' \<and> size' \<le> 100
           \<and> (\<forall>page'. 1 \<le> page' \<longrightarrow>
                 fst (list_health_records d usr dog_id date_from date_to page' size')
                   = Inr \<lparr>hl_items = take (nat size') (drop (nat ((page' - 1) * size')) q),
                          hl_total = int (length q), hl_page = page', hl_size = size',
                          hl_pages = (if 0 < int (length q) then ceil_div (int (length q)) size'
                                      else 1)\<rparr>)"
proof -
  from assms have valid: "1 \<le> page" "1 \<le> size'" "size' \<le> 100"
    by (auto simp: list_health_records_def split: if_splits)
  obtain user_dogs queried where g: "get_user_dogs d usr = (user_dogs, queried)"
    by (cases "get_user_dogs d usr")
  obtain access queried2 where
    c: "check_dog_access d usr (case dog_id of Some i \<Rightarrow> i | None \<Rightarrow> []) = (access, queried2)"
    by (cases "check_dog_access d usr (case dog_id of Some i \<Rightarrow> i | None \<Rightarrow> [])")
  show ?thesis
  proof (cases "u_role usr = USER \<and> user_dogs = []")
    case True
    then have "fst (list_health_records d usr dog_id date_from date_to page' size')
          = Inr \<lparr>hl_items = take (nat size') (drop (nat ((page' - 1) * size')) []),
                 hl_total = int (length ([] :: health_record list)), hl_page = page', hl_size = size',
                 hl_pages = (if 0 < int (length ([] :: health_record list))
                             then ceil_div (int (length ([] :: health_record list))) size' else 1)\<rparr>"
      if "1 \<le> page'" for page'
      using that valid unfolding list_health_records_def Let_def
      by (simp add: g)
    with valid show ?thesis by (intro exI [of _ "[]"]) simp
  next
    case False
    define q0 where "q0 = (if u_role usr = USER
                     then filter (\<lambda>h. h_dog_id h \<in> set (map d_id user_dogs)) (health_records d)
                     else health_records d)"
    define q1 where "q1 = (if truthy dog_id
                          then filter (\<lambda>h. Some (h_dog_id h) = dog_id) q0
                          else q0)"
    define q2 where "q2 = (case date_from of
                            Some df \<Rightarrow> filter (\<lambda>h. h_record_date h \<ge> df) q1
                          | None \<Rightarrow> q1)"
    define q3 where "q3 = (case date_to of
                            Some dt \<Rightarrow> filter (\<lambda>h. h_record_date h \<le> dt) q2
                          | None \<Rightarrow> q2)"
    define q where "q = order_by_desc (\<lambda>h. (h_record_date h, h_id h)) q3"
    have "set q0 \<subseteq> set (health_records d)" by (auto simp: q0_def)
    moreover have "set q1 \<subseteq> set q0" by (auto simp: q1_def)
    moreover have "set q2 \<subseteq> set q1" by (auto simp: q2_def split: option.splits)
    moreover have "set q3 \<subseteq> set q2" by (auto simp: q3_def split: option.splits)
    ultimately have sub: "set q \<subseteq> set (health_records d)"
      by (auto simp: q_def set_order_by_desc)
    have allowed: "\<not> (truthy dog_id \<and> u_role usr = USER \<and> \<not> access)"
      using assms valid False unfolding list_health_records_def Let_def
      by (auto simp: g c split: if_splits)
    have "fst (list_health_records d usr dog_id date_from date_to page' size')
          = Inr \<lparr>hl_items = take (nat size') (drop (nat ((page' - 1) * size')) q),
                 hl_total = int (length q), hl_page = page', hl_size = size',
                 hl_pages = (if 0 < int (length q) then ceil_div (int (length q)) size' else 1)\<rparr>"
      if "1 \<le> page'" for page'
    proof (cases "u_role usr = USER")
      case True
      with that valid False allowed show ?thesis
        unfolding list_health_records_def Let_def q_def q3_def q2_def q1_def q0_def
        by (simp add: g c)
    next
      case notuser: False
      with that valid show ?thesis
        unfolding list_health_records_def Let_def q_def q3_def q2_def q1_def q0_def
        by simp
    qed
    moreover have "sorted_wrt (\<lambda>a b. h_record_date b < h_record_date a
                              \<or> (h_record_date b = h_record_date a \<and> h_id b \<le> h_id a)) q"
      unfolding q_def by (rule sorted_by_date_then_id)
    ultimately show ?thesis using sub valid by blast
  qed
qed

lemma get_certificates_shape:
  assumes "get_certificates ops d usr skip limit dog_id cert_type issuer ea eb = Inr resp"
  shows "\<exists>q. set q \<subseteq> set (certificates d) \<and> 0 \<le> skip \<and> 1 \<le> limit \<and> limit \<le> 1000
           \<and> (\<forall>skip'. 0 \<le> skip' \<longrightarrow>
                 get_certificates ops d usr skip' limit dog_id cert_type issuer ea eb
                   = Inr \<lparr>pr_items = take (nat limit) (drop (nat skip') q),
                          pr_total = int (length q), pr_page = skip' div limit + 1,
                          pr_per_page = limit,
                          pr_pages = (int (length q) + limit - 1) div limit\<rparr>)"
proof -
  from assms have valid: "0 \<le> skip" "1 \<le> limit" "limit \<le> 1000"
    by (auto simp: get_certificates_def split: if_splits)
  define q0 where "q0 = (if truthy dog_id
                   then filter (\<lambda>c. Some (c_dog_id c) = dog_id) (certificates d) else certificates d)"
  define q1 where "q1 = (if truthy cert_type
                   then filter (\<lambda>c. Some (c_cert_type c) = cert_type) q0 else q0)"
  define q2 where "q2 = (case issuer of
                     Some i \<Rightarrow>
                       if i \<noteq> [] then filter (\<lambda>c. ilike ops (c_issuer c) (''%'' @ i @ ''%'')) q1
                       else q1
                   | None \<Rightarrow> q1)"
  define q3 where "q3 = (case ea of
                     Some a \<Rightarrow>
                       if a \<noteq> []
                       then filter (\<lambda>c. case c_expires_on c of
                                          None \<Rightarrow> False | Some e \<Rightarrow> date_ge ops e a) q2
                       else q2
                   | None \<Rightarrow> q2)"
  define q where "q = (case eb of
                     Some b \<Rightarrow>
                       if b \<noteq> []
                       then filter (\<lambda>c. case c_expires_on c of
                                          None \<Rightarrow> False | Some e \<Rightarrow> date_le ops e b) q3
                       else q3
                   | None \<Rightarrow> q3)"
  have "set q0 \<subseteq> set (certificates d)" by (auto simp: q0_def)
  moreover have "set q1 \<subseteq> set q0" by (auto simp: q1_def)
  moreover have "set q2 \<subseteq> set q1" by (auto simp: q2_def split: option.splits)
  moreover have "set q3 \<subseteq> set q2" by (auto simp: q3_def split: option.splits)
  moreover have "set q \<subseteq> set q3" by (auto simp: q_def split: option.splits)
  ultimately have sub: "set q \<subseteq> set (certificates d)" by blast
  have "get_certificates ops d usr skip' limit dog_id cert_type issuer ea eb
                   = Inr \<lparr>pr_items = take (nat limit) (drop (nat skip') q),
                          pr_total = int (length q), pr_page = skip' div limit + 1,
                          pr_per_page = limit,
                          pr_pages = (int (length q) + limit - 1) div limit\<rparr>"
    if "0 \<le> skip'" for skip'
  proof -
    have c1: "(skip' < 0 \<or> limit < 1 \<or> 1000 < limit) = False" using that valid by simp
    have c2: "(limit > 0) = True" using valid by simp
    show ?thesis
      unfolding get_certificates_def service_get_certificates_def Let_def q_def q3_def q2_def
        q1_def q0_def
      by (simp only: c1 c2 if_False if_True)
  qed
  with sub valid show ?thesis by blast
qed

lemma walk_resp_paging:
  fixes q :: "walk_report list"
  assumes "1 \<le> size'"
    and "resp = \<lparr>wl_items = take (nat size') (drop (nat ((page - 1) * size')) q),
             wl_total = int (length q), wl_page = page, wl_size = size',
             wl_pages = (if 0 < int (length q) then ceil_div (int (length q)) size' else 1)\<rparr>"
  shows "wl_pages resp = (if 0 < wl_total resp
                          then \<lceil>real_of_int (wl_total resp) / real_of_int size'\<rceil> else 1)"
    and "wl_pages resp < page \<Longrightarrow> wl_items resp = []"
proof -
  have p: "wl_pages resp = (if 0 < int (length q) then ceil_div (int (length q)) size' else 1)"
    and t: "wl_total resp = int (length q)"
    and i: "wl_items resp = take (nat size') (drop (nat ((page - 1) * size')) q)"
    unfolding assms(2) by simp_all
  show "wl_pages resp = (if 0 < wl_total resp
                          then \<lceil>real_of_int (wl_total resp) / real_of_int size'\<rceil> else 1)"
    unfolding p t ceil_div_def by (rule refl)
  assume "wl_pages resp < page"
  with assms(1) p show "wl_items resp = []"
    unfolding i by (intro beyond_last_page [of size' "wl_pages resp" q page]) simp_all
qed


lemma list_walk_reports_paging:
  assumes "list_walk_reports d usr ev sf page size' = Inr resp"
  shows "wl_pages resp = (if 0 < wl_total resp
                          then \<lceil>real_of_int (wl_total resp) / real_of_int size'\<rceil> else 1)
       \<and> (wl_pages resp < page \<longrightarrow> wl_items resp = [])
       \<and> (\<forall>page'\<ge>1. \<exists>resp'. list_walk_reports d usr ev sf page' size' = Inr resp'
             \<and> wl_total resp' = wl_total resp \<and> wl_pages resp' = wl_pages resp)"
proof -
  from list_walk_reports_shape [OF assms] obtain q where
    valid: "1 \<le> page" "1 \<le> size'" and
    shape: "\<And>page'. 1 \<le> page' \<Longrightarrow>
                 list_walk_reports d usr ev sf page' size'
                   = Inr \<lparr>wl_items = take (nat size') (drop (nat ((page' - 1) * size')) q),
                          wl_total = int (length q), wl_page = page', wl_size = size',
                          wl_pages = (if 0 < int (length q) then ceil_div (int (length q)) size'
                                      else 1)\<rparr>"
    by blast
  have resp:
    "resp = \<lparr>wl_items = take (nat size') (drop (nat ((page - 1) * size')) q),
             wl_total = int (length q), wl_page = page, wl_size = size',
             wl_pages = (if 0 < int (length q) then ceil_div (int (length q)) size' else 1)\<rparr>"
    using shape [OF valid(1)] unfolding assms by (rule Inr_inject)
  have same: "\<exists>resp'. list_walk_reports d usr ev sf page' size' = Inr resp'
             \<and> wl_total resp' = wl_total resp \<and> wl_pages resp' = wl_pages resp"
    if "1 \<le> page'" for page'
    unfolding shape [OF that] resp by simp
  from walk_resp_paging [OF valid(2) resp] same show ?thesis by blast
qed

lemma list_event_reports_paging:
  assumes "list_event_reports d usr event_id page size' = Inr resp"
  shows "wl_pages resp = (if 0 < wl_total resp
                          then \<lceil>real_of_int (wl_total resp) / real_of_int size'\<rceil> else 1)
       \<and> (wl_pages resp < page \<longrightarrow> wl_items resp = [])
       \<and> (\<forall>page'\<ge>1. \<exists>resp'. list_event_reports d usr event_id page' size' = Inr resp'
             \<and> wl_total resp' = wl_total resp \<and> wl_pages resp' = wl_pages resp)"
proof -
  from list_event_reports_shape [OF assms] obtain q where
    valid: "1 \<le> page" "1 \<le> size'" and
    shape: "\<And>page'. 1 \<le> page' \<Longrightarrow>
                 list_event_reports d usr event_id page' size'
                   = Inr \<lparr>wl_items = take (nat size') (drop (nat ((page' - 1) * size')) q),
                          wl_total = int (length q), wl_page = page', wl_size = size',
                          wl_pages = (if 0 < int (length q) then ceil_div (int (length q)) size'
                                      else 1)\<rparr>"
    by blast
  have resp:
    "resp = \<lparr>wl_items = take (nat size') (drop (nat ((page - 1) * size')) q),
             wl_total = int (length q), wl_page = page, wl_size = size',
             wl_pages = (if 0 < int (length q) then ceil_div (int (length q)) size' else 1)\<rparr>"
    using shape [OF valid(1)] unfolding assms by (rule Inr_inject)
  have same: "\<exists>resp'. list_event_reports d usr event_id page' size' = Inr resp'
             \<and> wl_total resp' = wl_total resp \<and> wl_pages resp' = wl_pages resp"
    if "1 \<le> page'" for page'
    unfolding shape [OF that] resp by simp
  from walk_resp_paging [OF valid(2) resp] same show ?thesis by blast
qed

lemma health_resp_paging:
  fixes q :: "health_record list"
  assumes "1 \<le> size'"
    and "resp = \<lparr>hl_items = take (nat size') (drop (nat ((page - 1) * size')) q),
             hl_total = int (length q), hl_page = page, hl_size = size',
             hl_pages = (if 0 < int (length q) then ceil_div (int (length q)) size' else 1)\<rparr>"
  shows "hl_pages resp = (if 0 < hl_total resp
                          then \<lceil>real_of_int (hl_total resp) / real_of_int size'\<rceil> else 1)"
    and "hl_pages resp < page \<Longrightarrow> hl_items resp = []"
proof -
  have p: "hl_pages resp = (if 0 < int (length q) then ceil_div (int (length q)) size' else 1)"
    and t: "hl_total resp = int (length q)"
    and i: "hl_items resp = take (nat size') (drop (nat ((page - 1) * size')) q)"
    unfolding assms(2) by simp_all
  show "hl_pages resp = (if 0 < hl_total resp
                          then \<lceil>real_of_int (hl_total resp) / real_of_int size'\<rceil> else 1)"
    unfolding p t ceil_div_def by (rule refl)
  assume "hl_pages resp < page"
  with assms(1) p show "hl_items resp = []"
    unfolding i by (intro beyond_last_page [of size' "hl_pages resp" q page]) simp_all
qed

lemma list_health_records_paging:
  assumes "fst (list_health_records d usr dog_id date_from date_to page size') = Inr resp"
  shows "hl_pages resp = (if 0 < hl_total resp
                          then \<lceil>real_of_int (hl_total resp) / real_of_int size'\<rceil> else 1)
       \<and> (hl_pages resp < page \<longrightarrow> hl_items resp = [])
       \<and> (\<forall>page'\<ge>1. \<exists>resp'.
             fst (list_health_records d usr dog_id date_from date_to page' size') = Inr resp'
             \<and> hl_total resp' = hl_total resp \<and> hl_pages resp' = hl_pages resp)"
proof -
  from list_health_records_shape [OF assms] obtain q where
    valid: "1 \<le> page" "1 \<le> size'" and
    shape: "\<And>page'. 1 \<le> page' \<Longrightarrow>
                 fst (list_health_records d usr dog_id date_from date_to page' size')
                   = Inr \<lparr>hl_items = take (nat size') (drop (nat ((page' - 1) * size')) q),
                          hl_total = int (length q), hl_page = page', hl_size = size',
                          hl_pages = (if 0 < int (length q) then ceil_div (int (length q)) size'
                                      else 1)\<rparr>"
    by blast
  have resp:
    "resp = \<lparr>hl_items = take (nat size') (drop (nat ((page - 1) * size')) q),
             hl_total = int (length q), hl_page = page, hl_size = size',
             hl_pages = (if 0 < int (length q) then ceil_div (int (length q)) size' else 1)\<rparr>"
    using shape [OF valid(1)] unfolding assms by (rule Inr_inject)
  have same: "\<exists>resp'. fst (list_health_records d usr dog_id date_from date_to page' size') = Inr resp'
             \<and> hl_total resp' = hl_total resp \<and> hl_pages resp' = hl_pages resp"
    if "1 \<le> page'" for page'
    unfolding shape [OF that] resp by simp
  from health_resp_paging [OF valid(2) resp] same show ?thesis by blast
qed

lemma get_certificates_paging:
  assumes "get_certificates ops d usr skip limit dog_id cert_type issuer ea eb = Inr resp"
  shows "pr_pages resp = \<lceil>real_of_int (pr_total resp) / real_of_int limit\<rceil>
       \<and> (pr_total resp = 0 \<longrightarrow> pr_pages resp = 0)
       \<and> (pr_pages resp < pr_page resp \<longrightarrow> pr_items resp = [])
       \<and> (\<forall>skip'\<ge>0. \<exists>resp'.
             get_certificates ops d usr skip' limit dog_id cert_type issuer ea eb = Inr resp'
             \<and> pr_total resp' = pr_total resp \<and> pr_pages resp' = pr_pages resp)"
proof -
  from get_certificates_shape [OF assms] obtain q where
    valid: "0 \<le> skip" "1 \<le> limit" and
    shape: "\<And>skip'. 0 \<le> skip' \<Longrightarrow>
                 get_certificates ops d usr skip' limit dog_id cert_type issuer ea eb
                   = Inr \<lparr>pr_items = take (nat limit) (drop (nat skip') q),
                          pr_total = int (length q), pr_page = skip' div limit + 1,
                          pr_per_page = limit,
                          pr_pages = (int (length q) + limit - 1) div limit\<rparr>"
    by blast
  have resp:
    "resp = \<lparr>pr_items = take (nat limit) (drop (nat skip) q),
                          pr_total = int (length q), pr_page = skip div limit + 1,
                          pr_per_page = limit,
                          pr_pages = (int (length q) + limit - 1) div limit\<rparr>"
    using shape [OF valid(1)] unfolding assms by (rule Inr_inject)
  have p: "pr_pages resp = (int (length q) + limit - 1) div limit"
    and t: "pr_total resp = int (length q)"
    and pg: "pr_page resp = skip div limit + 1"
    and i: "pr_items resp = take (nat limit) (drop (nat skip) q)"
    unfolding resp by simp_all
  have lim: "0 < limit" using valid(2) by simp
  have ceil: "pr_pages resp = ceil_div (int (length q)) limit"
    unfolding p using lim by (simp add: ceil_div_eq)
  then have c1: "pr_pages resp = \<lceil>real_of_int (pr_total resp) / real_of_int limit\<rceil>"
    unfolding t ceil_div_def .
  have c2: "pr_pages resp = 0" if "pr_total resp = 0"
    using that lim unfolding p t by simp
  have c3: "pr_items resp = []" if "pr_pages resp < pr_page resp"
  proof -
    have "int (length q) \<le> pr_pages resp * limit"
      unfolding ceil using lim by (intro ceil_div_bounds) simp_all
    also have "\<dots> \<le> (skip div limit) * limit"
      using that lim unfolding pg by (intro mult_right_mono) simp_all
    also have "\<dots> \<le> skip"
    proof -
      have "skip div limit * limit + skip mod limit = skip" by simp
      moreover have "0 \<le> skip mod limit" using lim by simp
      ultimately show ?thesis by linarith
    qed
    finally show ?thesis unfolding i by simp
  qed
  have same: "\<exists>resp'. get_certificates ops d usr skip' limit dog_id cert_type issuer ea eb = Inr resp'
             \<and> pr_total resp' = pr_total resp \<and> pr_pages resp' = pr_pages resp"
    if "0 \<le> skip'" for skip'
    unfolding shape [OF that] resp by simp
  from c1 c2 c3 same show ?thesis by blast
qed

lemma order_by_desc_eq_Nil: "(order_by_desc key rows = []) = (rows = [])"
  using length_order_by_desc [of key rows] by (metis length_0_conv)

lemma list_walk_reports_user_filtered:
  assumes "u_role usr \<notin> {ADMIN, SUPER_ADMIN}" "1 \<le> page" "1 \<le> size'" "size' \<le> 100"
  shows "list_walk_reports d usr ev (Some sf) page size'
     = Inr \<lparr>wl_items = take (nat size') (drop (nat ((page - 1) * size'))
                (order_by_desc r_created_at
                  (filter (\<lambda>r. (truthy ev \<longrightarrow> Some (r_walk_event_id r) = ev)
                           \<and> (r_status r = PUBLIC \<or> r_author_user_id r = u_id usr)
                           \<and> r_status r = sf) (walk_reports d)))),
            wl_total = int (length (filter (\<lambda>r. (truthy ev \<longrightarrow> Some (r_walk_event_id r) = ev)
                           \<and> (r_status r = PUBLIC \<or> r_author_user_id r = u_id usr)
                           \<and> r_status r = sf) (walk_reports d))),
            wl_page = page, wl_size = size',
            wl_pages = (if 0 < int (length (filter (\<lambda>r. (truthy ev \<longrightarrow> Some (r_walk_event_id r) = ev)
                           \<and> (r_status r = PUBLIC \<or> r_author_user_id r = u_id usr)
                           \<and> r_status r = sf) (walk_reports d)))
                        then ceil_div (int (length (filter (\<lambda>r. (truthy ev \<longrightarrow> Some (r_walk_event_id r) = ev)
                           \<and> (r_status r = PUBLIC \<or> r_author_user_id r = u_id usr)
                           \<and> r_status r = sf) (walk_reports d)))) size'
                        else 1)\<rparr>"
proof (cases "truthy ev")
  case True
  have "filter (\<lambda>r. (r_status r = PUBLIC \<or> r_author_user_id r = u_id usr) \<and> r_status r = sf)
          (filter (\<lambda>r. Some (r_walk_event_id r) = ev) (walk_reports d))
        = filter (\<lambda>r. (truthy ev \<longrightarrow> Some (r_walk_event_id r) = ev)
                           \<and> (r_status r = PUBLIC \<or> r_author_user_id r = u_id usr)
                           \<and> r_status r = sf) (walk_reports d)"
    using True by (simp add: conj_commute)
  with True assms show ?thesis
    by (simp add: list_walk_reports_def Let_def length_order_by_desc order_by_desc_eq_Nil)
next
  case False
  with assms show ?thesis
    by (simp add: list_walk_reports_def Let_def length_order_by_desc order_by_desc_eq_Nil)
qed

lemma paged_items_sound:
  assumes "r \<in> set (take n (drop m (order_by_desc key (filter P rows))))"
  shows "r \<in> set rows \<and> P r"
proof -
  have "set (take n (drop m (order_by_desc key (filter P rows))))
          \<subseteq> set (order_by_desc key (filter P rows))"
    by (rule page_subset)
  with assms have "r \<in> set (order_by_desc key (filter P rows))" by (rule rev_subsetD)
  then show ?thesis unfolding set_order_by_desc by simp
qed


lemma paged_items_complete:
  assumes "r \<in> set rows" "P r" "1 \<le> size'"
  shows "\<exists>page'\<ge>1. r \<in> set (take (nat size') (drop (nat ((page' - 1) * size'))
                                  (order_by_desc key (filter P rows))))"
proof -
  from assms(1,2) have mem: "r \<in> set (order_by_desc key (filter P rows))"
    unfolding set_order_by_desc by simp
  have pos: "0 < nat size'" using assms(3) by simp
  from page_covers [OF mem pos] obtain k where
    k: "r \<in> set (take (nat size') (drop (k * nat size') (order_by_desc key (filter P rows))))"
    ..
  have "(int k + 1 - 1) * size' = int (k * nat size')"
    using assms(3) by simp
  then have off: "nat ((int k + 1 - 1) * size') = k * nat size'"
    by (simp only: nat_int)
  have "1 \<le> int k + 1" by simp
  moreover have "r \<in> set (take (nat size') (drop (nat ((int k + 1 - 1) * size'))
                                  (order_by_desc key (filter P rows))))"
    unfolding off by (rule k)
  ultimately show ?thesis by (intro exI [of _ "int k + 1"] conjI)
qed


section \<open>Listing walk reports with a status filter\<close>

text \<open>
  C5. For a caller whose role is neither \<^verbatim>\<open>ADMIN\<close> nor \<^verbatim>\<open>SUPER_ADMIN\<close> and an explicit
  status filter, \<^verbatim>\<open>list_walk_reports\<close> selects by the conjunction of the visibility
  disjunction (status \<^verbatim>\<open>PUBLIC\<close> or own report) with the requested status: every
  returned report satisfies both, and the total counts exactly the reports that do. With
  \<^verbatim>\<open>status=PRIVATE\<close> every returned report is the caller's own private report, and each of
  the caller's private reports appears on some page.
\<close>

theorem list_walk_reports_status_filter_conjunction:
  assumes "u_role usr \<notin> {ADMIN, SUPER_ADMIN}" "1 \<le> page" "1 \<le> size'" "size' \<le> 100"
  shows "\<exists>resp. list_walk_reports d usr ev (Some sf) page size' = Inr resp
           \<and> (\<forall>r \<in> set (wl_items resp).
                 r \<in> set (walk_reports d)
                 \<and> (r_status r = PUBLIC \<or> r_author_user_id r = u_id usr) \<and> r_status r = sf)
           \<and> wl_total resp
               = int (length (filter (\<lambda>r. (truthy ev \<longrightarrow> Some (r_walk_event_id r) = ev)
                                \<and> (r_status r = PUBLIC \<or> r_author_user_id r = u_id usr)
                                \<and> r_status r = sf) (walk_reports d)))
           \<and> (sf = PRIVATE \<longrightarrow>
                (\<forall>r \<in> set (wl_items resp).
                   r_author_user_id r = u_id usr \<and> r_status r = PRIVATE)
                \<and> (\<forall>r \<in> set (walk_reports d).
                      r_author_user_id r = u_id usr \<and> r_status r = PRIVATE
                      \<and> (truthy ev \<longrightarrow> Some (r_walk_event_id r) = ev)
                      \<longrightarrow> (\<exists>page' \<ge> 1. \<exists>resp'.
                             list_walk_reports d usr ev (Some sf) page' size' = Inr resp'
                             \<and> r \<in> set (wl_items resp'))))"
proof -
  let ?P = "\<lambda>r. (truthy ev \<longrightarrow> Some (r_walk_event_id r) = ev)
                \<and> (r_status r = PUBLIC \<or> r_author_user_id r = u_id usr)
                \<and> r_status r = sf"
  let ?q = "order_by_desc r_created_at (filter ?P (walk_reports d))"
  let ?n = "int (length (filter ?P (walk_reports d)))"
  let ?resp = "\<lambda>pg. \<lparr>wl_items = take (nat size') (drop (nat ((pg - 1) * size')) ?q),
            wl_total = ?n, wl_page = pg, wl_size = size',
            wl_pages = (if 0 < ?n then ceil_div ?n size' else 1)\<rparr>"
  have shape: "list_walk_reports d usr ev (Some sf) pg size' = Inr (?resp pg)"
    if "1 \<le> pg" for pg
    by (rule list_walk_reports_user_filtered [OF assms(1) that assms(3,4)])
  have items: "wl_items (?resp pg) = take (nat size') (drop (nat ((pg - 1) * size')) ?q)" for pg
    by simp
  have sound: "r \<in> set (walk_reports d)
                 \<and> (r_status r = PUBLIC \<or> r_author_user_id r = u_id usr) \<and> r_status r = sf"
    if "r \<in> set (wl_items (?resp page))" for r
  proof -
    from that have "r \<in> set (take (nat size') (drop (nat ((page - 1) * size')) ?q))"
      unfolding items .
    from paged_items_sound [OF this] show ?thesis by blast
  qed
  have complete: "\<exists>page' \<ge> 1. \<exists>resp'.
                     list_walk_reports d usr ev (Some sf) page' size' = Inr resp'
                     \<and> r \<in> set (wl_items resp')"
    if "r \<in> set (walk_reports d)" and
       own: "r_author_user_id r = u_id usr \<and> r_status r = PRIVATE
             \<and> (truthy ev \<longrightarrow> Some (r_walk_event_id r) = ev)" and "sf = PRIVATE" for r
  proof -
    from own that(3) have "?P r" by blast
    from paged_items_complete [of r "walk_reports d" ?P size' r_created_at, OF that(1) this assms(3)]
    obtain pg where pg: "1 \<le> pg"
      "r \<in> set (take (nat size') (drop (nat ((pg - 1) * size')) ?q))"
      by blast
    from pg(2) have "r \<in> set (wl_items (?resp pg))" unfolding items .
    with shape [OF pg(1)] pg(1) show ?thesis by blast
  qed
  show ?thesis
  proof (intro exI [of _ "?resp page"] conjI impI ballI)
    show "list_walk_reports d usr ev (Some sf) page size' = Inr (?resp page)"
      by (rule shape [OF assms(2)])
    show "wl_total (?resp page) = ?n" by simp
  next
    fix r assume "r \<in> set (wl_items (?resp page))"
    from sound [OF this]
    show "r \<in> set (walk_reports d)" "r_status r = PUBLIC \<or> r_author_user_id r = u_id usr"
      "r_status r = sf"
      by blast+
  next
    fix r assume "sf = PRIVATE" "r \<in> set (wl_items (?resp page))"
    with sound [of r]
    show "r_author_user_id r = u_id usr" "r_status r = PRIVATE" by auto
  next
    fix r assume "sf = PRIVATE" "r \<in> set (walk_reports d)"
      "r_author_user_id r = u_id usr \<and> r_status r = PRIVATE
             \<and> (truthy ev \<longrightarrow> Some (r_walk_event_id r) = ev)"
    then show "\<exists>page' \<ge> 1. \<exists>resp'.
                     list_walk_reports d usr ev (Some sf) page' size' = Inr resp'
                     \<and> r \<in> set (wl_items resp')"
      by (intro complete)
  qed
qed

theorem list_walk_reports_status_filter_conjunction_witness:
  "list_walk_reports ex_db ex_user1 None (Some PRIVATE) 1 10
     = Inr \<lparr>wl_items = [ex_report ''r1'' ''u1'' PRIVATE 5], wl_total = 1, wl_page = 1,
            wl_size = 10, wl_pages = 1\<rparr>"
proof -
  have role: "u_role ex_user1 \<notin> {ADMIN, SUPER_ADMIN}" by (simp add: ex_user1_def)
  have valid: "(1::int) \<le> 1" "(1::int) \<le> 10" "(10::int) \<le> 100" by simp_all
  have listing: "list_walk_reports ex_db ex_user1 None (Some PRIVATE) 1 10
     = Inr \<lparr>wl_items = [ex_report ''r1'' ''u1'' PRIVATE 5], wl_total = 1, wl_page = 1,
            wl_size = 10, wl_pages = 1\<rparr>"
    by (simp add: list_walk_reports_def order_by_desc_def ceil_div_eq ex_db_def ex_user1_def
        ex_report_def)
  from list_walk_reports_status_filter_conjunction [OF role valid, of ex_db None PRIVATE]
    listing
  show ?thesis by - (rule listing)
qed


section \<open>Page metadata\<close>

text \<open>
  The certificate list of a dog without certificates: no match, and zero pages.
\<close>

theorem certificate_pages_counterexample:
  "get_certificates ex_ops ex_db ex_user1 0 100 (Some ''d1'') None None None None
     = Inr \<lparr>pr_items = [], pr_total = 0, pr_page = 1, pr_per_page = 100, pr_pages = 0\<rparr>"
  by (simp add: get_certificates_def service_get_certificates_def ex_db_def ex_certificate_def)

text \<open>
  C6, as amended. The handlers paged by \<^verbatim>\<open>page\<close> and \<^verbatim>\<open>size\<close>
  (\<^verbatim>\<open>list_walk_reports\<close>, \<^verbatim>\<open>list_event_reports\<close>, \<^verbatim>\<open>list_health_records\<close>) report
  \<open>pages = \<lceil>total / size\<rceil>\<close> when \<open>total > 0\<close> and \<open>pages = 1\<close> when \<open>total = 0\<close>; a page
  beyond the last has no items, and total and pages are the same on every page. The
  certificate list, paged by \<^verbatim>\<open>skip\<close> and \<^verbatim>\<open>limit\<close>, reports
  \<open>pages = \<lceil>total / limit\<rceil>\<close> for every total, which is 0 (not 1) when nothing matches; a
  window beyond the last page has no items, and total and pages do not depend on
  \<^verbatim>\<open>skip\<close>.
\<close>

theorem pagination_metadata:
  "(list_walk_reports d usr ev sf page size' = Inr wresp \<longrightarrow>
      wl_pages wresp = (if 0 < wl_total wresp
                        then \<lceil>real_of_int (wl_total wresp) / real_of_int size'\<rceil> else 1)
      \<and> (wl_pages wresp < page \<longrightarrow> wl_items wresp = [])
      \<and> (\<forall>page'\<ge>1. \<exists>resp'. list_walk_reports d usr ev sf page' size' = Inr resp'
            \<and> wl_total resp' = wl_total wresp \<and> wl_pages resp' = wl_pages wresp))
   \<and> (list_event_reports d usr event_id page size' = Inr eresp \<longrightarrow>
      wl_pages eresp = (if 0 < wl_total eresp
                        then \<lceil>real_of_int (wl_total eresp) / real_of_int size'\<rceil> else 1)
      \<and> (wl_pages eresp < page \<longrightarrow> wl_items eresp = [])
      \<and> (\<forall>page'\<ge>1. \<exists>resp'. list_event_reports d usr event_id page' size' = Inr resp'
            \<and> wl_total resp' = wl_total eresp \<and> wl_pages resp' = wl_pages eresp))
   \<and> (fst (list_health_records d usr dog_id date_from date_to page size') = Inr hresp \<longrightarrow>
      hl_pages hresp = (if 0 < hl_total hresp
                        then \<lceil>real_of_int (hl_total hresp) / real_of_int size'\<rceil> else 1)
      \<and> (hl_pages hresp < page \<longrightarrow> hl_items hresp = [])
      \<and> (\<forall>page'\<ge>1. \<exists>resp'.
            fst (list_health_records d usr dog_id date_from date_to page' size') = Inr resp'
            \<and> hl_total resp' = hl_total hresp \<and> hl_pages resp' = hl_pages hresp))
   \<and> (get_certificates ops d usr skip limit cert_dog_id cert_type issuer expires_after
         expires_before = Inr cresp \<longrightarrow>
      pr_pages cresp = \<lceil>real_of_int (pr_total cresp) / real_of_int limit\<rceil>
      \<and> (pr_total cresp = 0 \<longrightarrow> pr_pages cresp = 0)
      \<and> (pr_pages cresp < pr_page cresp \<longrightarrow> pr_items cresp = [])
      \<and> (\<forall>skip'\<ge>0. \<exists>resp'.
            get_certificates ops d usr skip' limit cert_dog_id cert_type issuer expires_after
              expires_before = Inr resp'
            \<and> pr_total resp' = pr_total cresp \<and> pr_pages resp' = pr_pages cresp))"
proof (intro conjI impI)
  assume "list_walk_reports d usr ev sf page size' = Inr wresp"
  note w = list_walk_reports_paging [OF this]
  from w show "wl_pages wresp = (if 0 < wl_total wresp
                        then \<lceil>real_of_int (wl_total wresp) / real_of_int size'\<rceil> else 1)" by (rule conjunct1)
  from w show "wl_items wresp = []" if "wl_pages wresp < page" using that by blast
  from w show "\<forall>page'\<ge>1. \<exists>resp'. list_walk_reports d usr ev sf page' size' = Inr resp'
            \<and> wl_total resp' = wl_total wresp \<and> wl_pages resp' = wl_pages wresp" by blast
next
  assume "list_event_reports d usr event_id page size' = Inr eresp"
  note e = list_event_reports_paging [OF this]
  from e show "wl_pages eresp = (if 0 < wl_total eresp
                        then \<lceil>real_of_int (wl_total eresp) / real_of_int size'\<rceil> else 1)" by (rule conjunct1)
  from e show "wl_items eresp = []" if "wl_pages eresp < page" using that by blast
  from e show "\<forall>page'\<ge>1. \<exists>resp'. list_event_reports d usr event_id page' size' = Inr resp'
            \<and> wl_total resp' = wl_total eresp \<and> wl_pages resp' = wl_pages eresp" by blast
next
  assume "fst (list_health_records d usr dog_id date_from date_to page size') = Inr hresp"
  note h = list_health_records_paging [OF this]
  from h show "hl_pages hresp = (if 0 < hl_total hresp
                        then \<lceil>real_of_int (hl_total hresp) / real_of_int size'\<rceil> else 1)" by (rule conjunct1)
  from h show "hl_items hresp = []" if "hl_pages hresp < page" using that by blast
  from h show "\<forall>page'\<ge>1. \<exists>resp'.
            fst (list_health_records d usr dog_id date_from date_to page' size') = Inr resp'
            \<and> hl_total resp' = hl_total hresp \<and> hl_pages resp' = hl_pages hresp" by blast
next
  assume "get_certificates ops d usr skip limit cert_dog_id cert_type issuer expires_after
         expires_before = Inr cresp"
  note c = get_certificates_paging [OF this]
  from c show "pr_pages cresp = \<lceil>real_of_int (pr_total cresp) / real_of_int limit\<rceil>" by (rule conjunct1)
  from c show "pr_pages cresp = 0" if "pr_total cresp = 0" using that by blast
  from c show "pr_items cresp = []" if "pr_pages cresp < pr_page cresp" using that by blast
  from c show "\<forall>skip'\<ge>0. \<exists>resp'.
            get_certificates ops d usr skip' limit cert_dog_id cert_type issuer expires_after
              expires_before = Inr resp'
            \<and> pr_total resp' = pr_total cresp \<and> pr_pages resp' = pr_pages cresp" by blast
qed

lemma eval_list_walk_reports: "list_walk_reports ex_db ex_admin None None 3 2
     = Inr \<lparr>wl_items = [], wl_total = 3, wl_page = 3, wl_size = 2, wl_pages = 2\<rparr>"
  by (simp add: list_walk_reports_def order_by_desc_def ceil_div_def ex_db_def ex_admin_def ex_report_def)

lemma eval_list_event_reports: "list_event_reports ex_db ex_admin ''e1'' 3 2
     = Inr \<lparr>wl_items = [], wl_total = 3, wl_page = 3, wl_size = 2, wl_pages = 2\<rparr>"
  by (simp add: list_event_reports_def order_by_desc_def ceil_div_def ex_db_def ex_admin_def ex_report_def)

lemma eval_list_health_records: "fst (list_health_records ex_db ex_admin None None None 3 2)
     = Inr \<lparr>hl_items = [], hl_total = 3, hl_page = 3, hl_size = 2, hl_pages = 2\<rparr>"
  by (simp add: list_health_records_def order_by_desc_def ceil_div_def ex_db_def ex_admin_def ex_health_def)

lemma eval_get_certificates: "get_certificates ex_ops ex_db ex_admin 100 100 None None None None None
     = Inr \<lparr>pr_items = [], pr_total = 1, pr_page = 2, pr_per_page = 100, pr_pages = 1\<rparr>"
  by (simp add: get_certificates_def service_get_certificates_def ex_db_def ex_certificate_def)

theorem pagination_metadata_witness:
  "list_walk_reports ex_db ex_admin None None 3 2
     = Inr \<lparr>wl_items = [], wl_total = 3, wl_page = 3, wl_size = 2, wl_pages = 2\<rparr>
   \<and> list_event_reports ex_db ex_admin ''e1'' 3 2
     = Inr \<lparr>wl_items = [], wl_total = 3, wl_page = 3, wl_size = 2, wl_pages = 2\<rparr>
   \<and> fst (list_health_records ex_db ex_admin None None None 3 2)
     = Inr \<lparr>hl_items = [], hl_total = 3, hl_page = 3, hl_size = 2, hl_pages = 2\<rparr>
   \<and> get_certificates ex_ops ex_db ex_admin 100 100 None None None None None
     = Inr \<lparr>pr_items = [], pr_total = 1, pr_page = 2, pr_per_page = 100, pr_pages = 1\<rparr>"
  using pagination_metadata [where d = ex_db and usr = ex_admin and ev = None and sf = None
      and page = 3 and size' = 2 and event_id = "''e1''" and dog_id = None
      and date_from = None and date_to = None and ops = ex_ops and skip = 100 and limit = 100
      and cert_dog_id = None and cert_type = None and issuer = None and expires_after = None
      and expires_before = None]
  by - (intro conjI eval_list_walk_reports eval_list_event_reports eval_list_health_records
      eval_get_certificates)




section \<open>Order of the listings\<close>













section \<open>Not found before forbidden\<close>

text \<open>
  A \<^verbatim>\<open>USER\<close> posting a health record for a dog that does not exist is answered 403, not
  404: the role is checked before the dog is looked up.
\<close>

theorem create_health_record_order_counterexample:
  "hc_dog_id ex_health_create \<notin> set (map d_id (dogs ex_db))
   \<and> u_role ex_user1 = USER
   \<and> create_health_record ex_db ex_user1 ex_health_create ''h9'' = (Inl HTTP_403_FORBIDDEN, [])"
  by (simp add: create_health_record_def ex_db_def ex_user1_def ex_health_create_def)

text \<open>
  C8, as amended. In the walk-report operations that name a report or an event
  (\<^verbatim>\<open>create_walk_report\<close>, \<^verbatim>\<open>get_walk_report\<close>, \<^verbatim>\<open>update_walk_report\<close>,
  \<^verbatim>\<open>delete_walk_report\<close>, \<^verbatim>\<open>list_event_reports\<close>) and in \<^verbatim>\<open>get_health_record\<close> a
  missing target is answered 404 for every caller, before any permission is decided.
  \<^verbatim>\<open>create_health_record\<close> checks the caller's role first: a caller who is not
  \<^verbatim>\<open>ADMIN\<close> or \<^verbatim>\<open>SUPER_ADMIN\<close> is answered 403 without the dog being looked up, and a
  missing dog is answered 404 to elevated callers only.
\<close>

theorem existence_checked_first:
  "(find (\<lambda>e. e_id e = rc_walk_event_id report_create) (walk_events d) = None \<longrightarrow>
      create_walk_report d usr report_create new_id now = Inl HTTP_404_NOT_FOUND)
   \<and> (find (\<lambda>r. r_id r = report_id) (walk_reports d) = None \<longrightarrow>
      get_walk_report d usr report_id = Inl HTTP_404_NOT_FOUND
      \<and> update_walk_report d usr report_id report_update = Inl HTTP_404_NOT_FOUND
      \<and> delete_walk_report d usr report_id = Inl HTTP_404_NOT_FOUND)
   \<and> (find (\<lambda>e. e_id e = event_id) (walk_events d) = None
        \<and> 1 \<le> page \<and> 1 \<le> size' \<and> size' \<le> 100 \<longrightarrow>
      list_event_reports d usr event_id page size' = Inl HTTP_404_NOT_FOUND)
   \<and> (find (\<lambda>h. h_id h = record_id) (health_records d) = None \<longrightarrow>
      get_health_record d usr record_id = (Inl HTTP_404_NOT_FOUND, [T_HealthRecord]))
   \<and> (u_role usr \<notin> {ADMIN, SUPER_ADMIN} \<longrightarrow>
      create_health_record d usr health_create new_id = (Inl HTTP_403_FORBIDDEN, []))
   \<and> (u_role usr \<in> {ADMIN, SUPER_ADMIN}
        \<and> find (\<lambda>dg. d_id dg = hc_dog_id health_create) (dogs d) = None \<longrightarrow>
      create_health_record d usr health_create new_id = (Inl HTTP_404_NOT_FOUND, [T_Dog]))"
proof (intro conjI impI)
  assume "find (\<lambda>e. e_id e = rc_walk_event_id report_create) (walk_events d) = None"
  then show "create_walk_report d usr report_create new_id now = Inl HTTP_404_NOT_FOUND"
    by (simp add: create_walk_report_def)
next
  assume *: "find (\<lambda>r. r_id r = report_id) (walk_reports d) = None"
  from * show "get_walk_report d usr report_id = Inl HTTP_404_NOT_FOUND"
    by (simp add: get_walk_report_def)
  from * show "update_walk_report d usr report_id report_update = Inl HTTP_404_NOT_FOUND"
    by (simp add: update_walk_report_def)
  from * show "delete_walk_report d usr report_id = Inl HTTP_404_NOT_FOUND"
    by (simp add: delete_walk_report_def)
next
  assume "find (\<lambda>e. e_id e = event_id) (walk_events d) = None
        \<and> 1 \<le> page \<and> 1 \<le> size' \<and> size' \<le> 100"
  then show "list_event_reports d usr event_id page size' = Inl HTTP_404_NOT_FOUND"
    by (simp add: list_event_reports_def)
next
  assume "find (\<lambda>h. h_id h = record_id) (health_records d) = None"
  then show "get_health_record d usr record_id = (Inl HTTP_404_NOT_FOUND, [T_HealthRecord])"
    by (simp add: get_health_record_def)
next
  assume "u_role usr \<notin> {ADMIN, SUPER_ADMIN}"
  then show "create_health_record d usr health_create new_id = (Inl HTTP_403_FORBIDDEN, [])"
    by (simp add: create_health_record_def)
next
  assume "u_role usr \<in> {ADMIN, SUPER_ADMIN}
        \<and> find (\<lambda>dg. d_id dg = hc_dog_id health_create) (dogs d) = None"
  then show "create_health_record d usr health_create new_id = (Inl HTTP_404_NOT_FOUND, [T_Dog])"
    by (auto simp: create_health_record_def)
qed

theorem existence_checked_first_witness:
  "create_walk_report ex_db ex_user2
      \<lparr>rc_walk_event_id = ''e9'', rc_title = ''t'', rc_content = None, rc_photos_json = None,
        rc_weather = None, rc_status = None\<rparr> ''r9'' 8 = Inl HTTP_404_NOT_FOUND
   \<and> get_walk_report ex_db ex_user2 ''r9'' = Inl HTTP_404_NOT_FOUND
   \<and> update_walk_report ex_db ex_user2 ''r9'' ex_update = Inl HTTP_404_NOT_FOUND
   \<and> delete_walk_report ex_db ex_user2 ''r9'' = Inl HTTP_404_NOT_FOUND
   \<and> list_event_reports ex_db ex_user2 ''e9'' 1 10 = Inl HTTP_404_NOT_FOUND
   \<and> get_health_record ex_db ex_user2 ''h9'' = (Inl HTTP_404_NOT_FOUND, [T_HealthRecord])
   \<and> create_health_record ex_db ex_user2 ex_health_create ''h9'' = (Inl HTTP_403_FORBIDDEN, [])
   \<and> create_health_record ex_db ex_admin ex_health_create ''h9''
       = (Inl HTTP_404_NOT_FOUND, [T_Dog])"
  using existence_checked_first [where d = ex_db and usr = ex_user2 and report_id = "''r9''"
      and report_create = "\<lparr>rc_walk_event_id = ''e9'', rc_title = ''t'', rc_content = None,
        rc_photos_json = None, rc_weather = None, rc_status = None\<rparr>"
      and new_id = "''r9''" and now = 8 and report_update = ex_update]
    existence_checked_first [where d = ex_db and usr = ex_user2 and event_id = "''e9''"
      and page = 1 and size' = 10 and record_id = "''h9''" and health_create = ex_health_create
      and new_id = "''h9''"]
    existence_checked_first [where d = ex_db and usr = ex_admin
      and health_create = ex_health_create and new_id = "''h9''"]
  by (simp add: ex_db_def ex_user2_def ex_admin_def ex_health_create_def ex_health_def
      ex_report_def)


section \<open>Ownership scope of a user without owner\<close>

text \<open>
  C9. For a caller with role \<^verbatim>\<open>USER\<close> and no owner linked to the user id,
  \<^verbatim>\<open>get_user_dogs\<close> is empty and \<^verbatim>\<open>list_health_records\<close> returns no items, total 0
  and pages 1, having queried the owner table only: the health-record query is never
  executed.
\<close>

theorem no_owner_empty_scope:
  assumes "u_role usr = USER"
    and "find (\<lambda>ow. o_user_id ow = Some (u_id usr)) (owners d) = None"
    and "1 \<le> page" "1 \<le> size'" "size' \<le> 100"
  shows "get_user_dogs d usr = ([], [T_Owner])
       \<and> list_health_records d usr dog_id date_from date_to page size'
           = (Inr \<lparr>hl_items = [], hl_total = 0, hl_page = page, hl_size = size', hl_pages = 1\<rparr>,
              [T_Owner])
       \<and> T_HealthRecord \<notin> set (snd (list_health_records d usr dog_id date_from date_to page size'))"
proof -
  from assms(1,2) have g: "get_user_dogs d usr = ([], [T_Owner])"
    by (simp add: get_user_dogs_def)
  with assms have l: "list_health_records d usr dog_id date_from date_to page size'
           = (Inr \<lparr>hl_items = [], hl_total = 0, hl_page = page, hl_size = size', hl_pages = 1\<rparr>,
              [T_Owner])"
    by (simp add: list_health_records_def)
  from g l show ?thesis by simp
qed

theorem no_owner_empty_scope_witness:
  "get_user_dogs ex_db ex_user2 = ([], [T_Owner])
   \<and> list_health_records ex_db ex_user2 (Some ''d1'') None None 1 10
       = (Inr \<lparr>hl_items = [], hl_total = 0, hl_page = 1, hl_size = 10, hl_pages = 1\<rparr>, [T_Owner])"
proof -
  have role: "u_role ex_user2 = USER" by (simp add: ex_user2_def)
  have unlinked: "find (\<lambda>ow. o_user_id ow = Some (u_id ex_user2)) (owners ex_db) = None"
    by (simp add: ex_user2_def ex_db_def ex_owner1_def ex_owner2_def)
  have valid: "(1::int) \<le> 1" "(1::int) \<le> 10" "(10::int) \<le> 100" by simp_all
  from no_owner_empty_scope [OF role unlinked valid, of "Some ''d1''" None None]
  show ?thesis by simp
qed


section \<open>Reading certificates\<close>

text \<open>
  A \<^verbatim>\<open>USER\<close> without any dog reads, by id and through the list, the certificate of a dog
  owned by someone else.
\<close>

theorem certificate_read_counterexample:
  "u_role ex_user2 = USER
   \<and> \<not> fst (check_dog_access ex_db ex_user2 (c_dog_id ex_certificate))
   \<and> get_certificate ex_db ex_user2 ''c1'' = Inr ex_certificate
   \<and> get_certificates ex_ops ex_db ex_user2 0 100 None None None None None
       = Inr \<lparr>pr_items = [ex_certificate], pr_total = 1, pr_page = 1, pr_per_page = 100,
              pr_pages = 1\<rparr>"
  by (simp add: get_certificate_def service_get_certificate_def get_certificates_def
      service_get_certificates_def check_dog_access_def get_user_dogs_def
      ex_db_def ex_user2_def ex_certificate_def ex_owner1_def ex_owner2_def)

lemma filter_stage_if:
  "(if c then filter p (filter M xs) else filter M xs) = filter (\<lambda>x. M x \<and> (c \<longrightarrow> p x)) xs"
  by (simp add: conj_commute)

lemma filter_stage_case:
  "(case v of Some a \<Rightarrow> if a \<noteq> [] then filter (p a) (filter M xs) else filter M xs
            | None \<Rightarrow> filter M xs)
     = filter (\<lambda>x. M x \<and> (\<forall>a. v = Some a \<and> a \<noteq> [] \<longrightarrow> p a x)) xs"
  by (cases v) (simp_all add: conj_commute)

lemma service_get_certificates_matching:
  "service_get_certificates ops d skip limit dog_id cert_type issuer expires_after expires_before
     = (let q = filter (\<lambda>c. (truthy dog_id \<longrightarrow> Some (c_dog_id c) = dog_id)
                    \<and> (truthy cert_type \<longrightarrow> Some (c_cert_type c) = cert_type)
                    \<and> (\<forall>i. issuer = Some i \<and> i \<noteq> [] \<longrightarrow> ilike ops (c_issuer c) (''%'' @ i @ ''%''))
                    \<and> (\<forall>a. expires_after = Some a \<and> a \<noteq> [] \<longrightarrow>
                          (\<exists>e. c_expires_on c = Some e \<and> date_ge ops e a))
                    \<and> (\<forall>b. expires_before = Some b \<and> b \<noteq> [] \<longrightarrow>
                          (\<exists>e. c_expires_on c = Some e \<and> date_le ops e b)))
                (certificates d)
        in \<lparr>pr_items = take (nat limit) (drop (nat skip) q), pr_total = int (length q),
             pr_page = (if limit > 0 then skip div limit + 1 else 1), pr_per_page = limit,
             pr_pages = (if limit > 0 then (int (length q) + limit - 1) div limit else 1)\<rparr>)"
proof -
  define q0 where "q0 = (if truthy dog_id
                   then filter (\<lambda>c. Some (c_dog_id c) = dog_id) (certificates d) else certificates d)"
  define q1 where "q1 = (if truthy cert_type
                   then filter (\<lambda>c. Some (c_cert_type c) = cert_type) q0 else q0)"
  define q2 where "q2 = (case issuer of
                     Some i \<Rightarrow>
                       if i \<noteq> [] then filter (\<lambda>c. ilike ops (c_issuer c) (''%'' @ i @ ''%'')) q1
                       else q1
                   | None \<Rightarrow> q1)"
  define q3 where "q3 = (case expires_after of
                     Some a \<Rightarrow>
                       if a \<noteq> []
                       then filter (\<lambda>c. case c_expires_on c of
                                          None \<Rightarrow> False | Some e \<Rightarrow> date_ge ops e a) q2
                       else q2
                   | None \<Rightarrow> q2)"
  define q4 where "q4 = (case expires_before of
                     Some b \<Rightarrow>
                       if b \<noteq> []
                       then filter (\<lambda>c. case c_expires_on c of
                                          None \<Rightarrow> False | Some e \<Rightarrow> date_le ops e b) q3
                       else q3
                   | None \<Rightarrow> q3)"
  have unfold: "service_get_certificates ops d skip limit dog_id cert_type issuer expires_after
      expires_before
     = \<lparr>pr_items = take (nat limit) (drop (nat skip) q4), pr_total = int (length q4),
             pr_page = (if limit > 0 then skip div limit + 1 else 1), pr_per_page = limit,
             pr_pages = (if limit > 0 then (int (length q4) + limit - 1) div limit else 1)\<rparr>"
    unfolding service_get_certificates_def Let_def q4_def q3_def q2_def q1_def q0_def
    by (rule refl)
  have e0: "q0 = filter (\<lambda>c. True \<and> (truthy dog_id \<longrightarrow> Some (c_dog_id c) = dog_id))
                   (certificates d)"
    using filter_stage_if [of "truthy dog_id" "\<lambda>c. Some (c_dog_id c) = dog_id" "\<lambda>_. True"
        "certificates d"]
    by (simp add: q0_def)
  have e1: "q1 = filter (\<lambda>c. (True \<and> (truthy dog_id \<longrightarrow> Some (c_dog_id c) = dog_id))
                    \<and> (truthy cert_type \<longrightarrow> Some (c_cert_type c) = cert_type))
                   (certificates d)"
    unfolding q1_def e0 by (rule filter_stage_if)
  have e2: "q2 = filter (\<lambda>c. ((True \<and> (truthy dog_id \<longrightarrow> Some (c_dog_id c) = dog_id))
                    \<and> (truthy cert_type \<longrightarrow> Some (c_cert_type c) = cert_type))
                    \<and> (\<forall>i. issuer = Some i \<and> i \<noteq> [] \<longrightarrow> ilike ops (c_issuer c) (''%'' @ i @ ''%'')))
                   (certificates d)"
    unfolding q2_def e1 by (rule filter_stage_case)
  have e3: "q3 = filter (\<lambda>c. (((True \<and> (truthy dog_id \<longrightarrow> Some (c_dog_id c) = dog_id))
                    \<and> (truthy cert_type \<longrightarrow> Some (c_cert_type c) = cert_type))
                    \<and> (\<forall>i. issuer = Some i \<and> i \<noteq> [] \<longrightarrow> ilike ops (c_issuer c) (''%'' @ i @ ''%'')))
                    \<and> (\<forall>a. expires_after = Some a \<and> a \<noteq> [] \<longrightarrow>
                          (case c_expires_on c of None \<Rightarrow> False | Some e \<Rightarrow> date_ge ops e a)))
                   (certificates d)"
    unfolding q3_def e2 by (rule filter_stage_case)
  have e4: "q4 = filter (\<lambda>c. ((((True \<and> (truthy dog_id \<longrightarrow> Some (c_dog_id c) = dog_id))
                    \<and> (truthy cert_type \<longrightarrow> Some (c_cert_type c) = cert_type))
                    \<and> (\<forall>i. issuer = Some i \<and> i \<noteq> [] \<longrightarrow> ilike ops (c_issuer c) (''%'' @ i @ ''%'')))
                    \<and> (\<forall>a. expires_after = Some a \<and> a \<noteq> [] \<longrightarrow>
                          (case c_expires_on c of None \<Rightarrow> False | Some e \<Rightarrow> date_ge ops e a)))
                    \<and> (\<forall>b. expires_before = Some b \<and> b \<noteq> [] \<longrightarrow>
                          (case c_expires_on c of None \<Rightarrow> False | Some e \<Rightarrow> date_le ops e b)))
                   (certificates d)"
    unfolding q4_def e3 by (rule filter_stage_case)
  have e: "q4 = filter (\<lambda>c. (truthy dog_id \<longrightarrow> Some (c_dog_id c) = dog_id)
                    \<and> (truthy cert_type \<longrightarrow> Some (c_cert_type c) = cert_type)
                    \<and> (\<forall>i. issuer = Some i \<and> i \<noteq> [] \<longrightarrow> ilike ops (c_issuer c) (''%'' @ i @ ''%''))
                    \<and> (\<forall>a. expires_after = Some a \<and> a \<noteq> [] \<longrightarrow>
                          (\<exists>e. c_expires_on c = Some e \<and> date_ge ops e a))
                    \<and> (\<forall>b. expires_before = Some b \<and> b \<noteq> [] \<longrightarrow>
                          (\<exists>e. c_expires_on c = Some e \<and> date_le ops e b)))
                (certificates d)"
    unfolding e4 by (rule filter_cong [OF refl]) (auto split: option.splits)
  show ?thesis unfolding unfold e Let_def by (rule refl)
qed


lemma window_covers:
  assumes "x \<in> set xs" "1 \<le> limit"
  shows "\<exists>skip'\<ge>0. x \<in> set (take (nat limit) (drop (nat skip') xs))"
proof -
  have pos: "0 < nat limit" using assms(2) by simp
  from page_covers [OF assms(1) pos] obtain k where
    k: "x \<in> set (take (nat limit) (drop (k * nat limit) xs))" ..
  have "nat (int (k * nat limit)) = k * nat limit" by (simp only: nat_int)
  with k have "x \<in> set (take (nat limit) (drop (nat (int (k * nat limit))) xs))" by simp
  moreover have "0 \<le> int (k * nat limit)" by simp
  ultimately show ?thesis by (intro exI [of _ "int (k * nat limit)"] conjI)
qed

lemma get_certificates_matching:
  assumes "0 \<le> skip" "1 \<le> limit" "limit \<le> 1000"
  shows "get_certificates ops d usr skip limit dog_id cert_type issuer expires_after expires_before
     = Inr \<lparr>pr_items = take (nat limit) (drop (nat skip) (filter (\<lambda>c. (truthy dog_id \<longrightarrow> Some (c_dog_id c) = dog_id)
                    \<and> (truthy cert_type \<longrightarrow> Some (c_cert_type c) = cert_type)
                    \<and> (\<forall>i. issuer = Some i \<and> i \<noteq> [] \<longrightarrow> ilike ops (c_issuer c) (''%'' @ i @ ''%''))
                    \<and> (\<forall>a. expires_after = Some a \<and> a \<noteq> [] \<longrightarrow>
                          (\<exists>e. c_expires_on c = Some e \<and> date_ge ops e a))
                    \<and> (\<forall>b. expires_before = Some b \<and> b \<noteq> [] \<longrightarrow>
                          (\<exists>e. c_expires_on c = Some e \<and> date_le ops e b))) (certificates d))),
            pr_total = int (length (filter (\<lambda>c. (truthy dog_id \<longrightarrow> Some (c_dog_id c) = dog_id)
                    \<and> (truthy cert_type \<longrightarrow> Some (c_cert_type c) = cert_type)
                    \<and> (\<forall>i. issuer = Some i \<and> i \<noteq> [] \<longrightarrow> ilike ops (c_issuer c) (''%'' @ i @ ''%''))
                    \<and> (\<forall>a. expires_after = Some a \<and> a \<noteq> [] \<longrightarrow>
                          (\<exists>e. c_expires_on c = Some e \<and> date_ge ops e a))
                    \<and> (\<forall>b. expires_before = Some b \<and> b \<noteq> [] \<longrightarrow>
                          (\<exists>e. c_expires_on c = Some e \<and> date_le ops e b))) (certificates d))),
            pr_page = skip div limit + 1, pr_per_page = limit,
            pr_pages = (int (length (filter (\<lambda>c. (truthy dog_id \<longrightarrow> Some (c_dog_id c) = dog_id)
                    \<and> (truthy cert_type \<longrightarrow> Some (c_cert_type c) = cert_type)
                    \<and> (\<forall>i. issuer = Some i \<and> i \<noteq> [] \<longrightarrow> ilike ops (c_issuer c) (''%'' @ i @ ''%''))
                    \<and> (\<forall>a. expires_after = Some a \<and> a \<noteq> [] \<longrightarrow>
                          (\<exists>e. c_expires_on c = Some e \<and> date_ge ops e a))
                    \<and> (\<forall>b. expires_before = Some b \<and> b \<noteq> [] \<longrightarrow>
                          (\<exists>e. c_expires_on c = Some e \<and> date_le ops e b))) (certificates d))) + limit - 1) div limit\<rparr>"
proof -
  have valid: "(skip < 0 \<or> limit < 1 \<or> 1000 < limit) = False" using assms by simp
  have pos: "(limit > 0) = True" using assms(2) by simp
  show ?thesis
    unfolding get_certificates_def service_get_certificates_matching Let_def
    by (simp only: valid pos if_False if_True)
qed

text \<open>
  C10, as amended. Reading certificates depends on neither the caller's role nor the
  caller's dogs. \<^verbatim>\<open>get_certificate\<close> returns every certificate that exists, to every
  caller. \<^verbatim>\<open>get_certificates\<close> returns the same answer to every caller: its items are
  a window of the certificates that match the explicit filters (dog, type, issuer
  pattern, expiry bounds), in scan order, its total counts exactly those, and every
  matching certificate lies in some window.
\<close>

theorem certificate_read_any_user:
  "(find (\<lambda>c. c_id c = certificate_id) (certificates d) = Some cert \<longrightarrow>
      get_certificate d usr certificate_id = Inr cert)
   \<and> get_certificate d usr certificate_id = get_certificate d usr' certificate_id
   \<and> get_certificates ops d usr skip limit dog_id cert_type issuer expires_after expires_before
       = get_certificates ops d usr' skip limit dog_id cert_type issuer expires_after
           expires_before
   \<and> (0 \<le> skip \<and> 1 \<le> limit \<and> limit \<le> 1000 \<longrightarrow>
        (\<exists>resp. get_certificates ops d usr skip limit dog_id cert_type issuer expires_after
                  expires_before = Inr resp
           \<and> pr_items resp = take (nat limit) (drop (nat skip) (filter (\<lambda>c. (truthy dog_id \<longrightarrow> Some (c_dog_id c) = dog_id)
                    \<and> (truthy cert_type \<longrightarrow> Some (c_cert_type c) = cert_type)
                    \<and> (\<forall>i. issuer = Some i \<and> i \<noteq> [] \<longrightarrow> ilike ops (c_issuer c) (''%'' @ i @ ''%''))
                    \<and> (\<forall>a. expires_after = Some a \<and> a \<noteq> [] \<longrightarrow>
                          (\<exists>e. c_expires_on c = Some e \<and> date_ge ops e a))
                    \<and> (\<forall>b. expires_before = Some b \<and> b \<noteq> [] \<longrightarrow>
                          (\<exists>e. c_expires_on c = Some e \<and> date_le ops e b))) (certificates d)))
           \<and> pr_total resp = int (length (filter (\<lambda>c. (truthy dog_id \<longrightarrow> Some (c_dog_id c) = dog_id)
                    \<and> (truthy cert_type \<longrightarrow> Some (c_cert_type c) = cert_type)
                    \<and> (\<forall>i. issuer = Some i \<and> i \<noteq> [] \<longrightarrow> ilike ops (c_issuer c) (''%'' @ i @ ''%''))
                    \<and> (\<forall>a. expires_after = Some a \<and> a \<noteq> [] \<longrightarrow>
                          (\<exists>e. c_expires_on c = Some e \<and> date_ge ops e a))
                    \<and> (\<forall>b. expires_before = Some b \<and> b \<noteq> [] \<longrightarrow>
                          (\<exists>e. c_expires_on c = Some e \<and> date_le ops e b))) (certificates d))))
        \<and> (\<forall>c \<in> set (certificates d). (\<lambda>c. (truthy dog_id \<longrightarrow> Some (c_dog_id c) = dog_id)
                    \<and> (truthy cert_type \<longrightarrow> Some (c_cert_type c) = cert_type)
                    \<and> (\<forall>i. issuer = Some i \<and> i \<noteq> [] \<longrightarrow> ilike ops (c_issuer c) (''%'' @ i @ ''%''))
                    \<and> (\<forall>a. expires_after = Some a \<and> a \<noteq> [] \<longrightarrow>
                          (\<exists>e. c_expires_on c = Some e \<and> date_ge ops e a))
                    \<and> (\<forall>b. expires_before = Some b \<and> b \<noteq> [] \<longrightarrow>
                          (\<exists>e. c_expires_on c = Some e \<and> date_le ops e b))) c \<longrightarrow>
              (\<exists>skip'\<ge>0. \<exists>resp'.
                 get_certificates ops d usr skip' limit dog_id cert_type issuer expires_after
                   expires_before = Inr resp'
                 \<and> c \<in> set (pr_items resp'))))
   \<and> (0 \<le> skip \<and> 1 \<le> limit \<and> limit \<le> 1000 \<longrightarrow>
        (\<exists>resp. get_certificates ops d usr skip limit None None None None None = Inr resp
           \<and> pr_total resp = int (length (certificates d))
           \<and> pr_items resp = take (nat limit) (drop (nat skip) (certificates d))))"
proof (intro conjI impI ballI)
  assume "find (\<lambda>c. c_id c = certificate_id) (certificates d) = Some cert"
  then show "get_certificate d usr certificate_id = Inr cert"
    by (simp add: get_certificate_def service_get_certificate_def)
next
  show "get_certificate d usr certificate_id = get_certificate d usr' certificate_id"
    by (simp add: get_certificate_def)
next
  show "get_certificates ops d usr skip limit dog_id cert_type issuer expires_after expires_before
       = get_certificates ops d usr' skip limit dog_id cert_type issuer expires_after
           expires_before"
    by (simp add: get_certificates_def)
next
  assume "0 \<le> skip \<and> 1 \<le> limit \<and> limit \<le> 1000"
  then have v: "0 \<le> skip" "1 \<le> limit" "limit \<le> 1000" by simp_all
  show "\<exists>resp. get_certificates ops d usr skip limit dog_id cert_type issuer expires_after
                  expires_before = Inr resp
           \<and> pr_items resp = take (nat limit) (drop (nat skip) (filter (\<lambda>c. (truthy dog_id \<longrightarrow> Some (c_dog_id c) = dog_id)
                    \<and> (truthy cert_type \<longrightarrow> Some (c_cert_type c) = cert_type)
                    \<and> (\<forall>i. issuer = Some i \<and> i \<noteq> [] \<longrightarrow> ilike ops (c_issuer c) (''%'' @ i @ ''%''))
                    \<and> (\<forall>a. expires_after = Some a \<and> a \<noteq> [] \<longrightarrow>
                          (\<exists>e. c_expires_on c = Some e \<and> date_ge ops e a))
                    \<and> (\<forall>b. expires_before = Some b \<and> b \<noteq> [] \<longrightarrow>
                          (\<exists>e. c_expires_on c = Some e \<and> date_le ops e b))) (certificates d)))
           \<and> pr_total resp = int (length (filter (\<lambda>c. (truthy dog_id \<longrightarrow> Some (c_dog_id c) = dog_id)
                    \<and> (truthy cert_type \<longrightarrow> Some (c_cert_type c) = cert_type)
                    \<and> (\<forall>i. issuer = Some i \<and> i \<noteq> [] \<longrightarrow> ilike ops (c_issuer c) (''%'' @ i @ ''%''))
                    \<and> (\<forall>a. expires_after = Some a \<and> a \<noteq> [] \<longrightarrow>
                          (\<exists>e. c_expires_on c = Some e \<and> date_ge ops e a))
                    \<and> (\<forall>b. expires_before = Some b \<and> b \<noteq> [] \<longrightarrow>
                          (\<exists>e. c_expires_on c = Some e \<and> date_le ops e b))) (certificates d)))"
    unfolding get_certificates_matching [OF v] by simp
next
  fix c
  assume "0 \<le> skip \<and> 1 \<le> limit \<and> limit \<le> 1000"
  then have v: "1 \<le> limit" "limit \<le> 1000" by simp_all
  assume "c \<in> set (certificates d)" and "(\<lambda>c. (truthy dog_id \<longrightarrow> Some (c_dog_id c) = dog_id)
                    \<and> (truthy cert_type \<longrightarrow> Some (c_cert_type c) = cert_type)
                    \<and> (\<forall>i. issuer = Some i \<and> i \<noteq> [] \<longrightarrow> ilike ops (c_issuer c) (''%'' @ i @ ''%''))
                    \<and> (\<forall>a. expires_after = Some a \<and> a \<noteq> [] \<longrightarrow>
                          (\<exists>e. c_expires_on c = Some e \<and> date_ge ops e a))
                    \<and> (\<forall>b. expires_before = Some b \<and> b \<noteq> [] \<longrightarrow>
                          (\<exists>e. c_expires_on c = Some e \<and> date_le ops e b))) c"
  then have "c \<in> set (filter (\<lambda>c. (truthy dog_id \<longrightarrow> Some (c_dog_id c) = dog_id)
                    \<and> (truthy cert_type \<longrightarrow> Some (c_cert_type c) = cert_type)
                    \<and> (\<forall>i. issuer = Some i \<and> i \<noteq> [] \<longrightarrow> ilike ops (c_issuer c) (''%'' @ i @ ''%''))
                    \<and> (\<forall>a. expires_after = Some a \<and> a \<noteq> [] \<longrightarrow>
                          (\<exists>e. c_expires_on c = Some e \<and> date_ge ops e a))
                    \<and> (\<forall>b. expires_before = Some b \<and> b \<noteq> [] \<longrightarrow>
                          (\<exists>e. c_expires_on c = Some e \<and> date_le ops e b))) (certificates d))" by simp
  from window_covers [OF this v(1)] obtain skip' where
    s: "0 \<le> skip'" "c \<in> set (take (nat limit) (drop (nat skip') (filter (\<lambda>c. (truthy dog_id \<longrightarrow> Some (c_dog_id c) = dog_id)
                    \<and> (truthy cert_type \<longrightarrow> Some (c_cert_type c) = cert_type)
                    \<and> (\<forall>i. issuer = Some i \<and> i \<noteq> [] \<longrightarrow> ilike ops (c_issuer c) (''%'' @ i @ ''%''))
                    \<and> (\<forall>a. expires_after = Some a \<and> a \<noteq> [] \<longrightarrow>
                          (\<exists>e. c_expires_on c = Some e \<and> date_ge ops e a))
                    \<and> (\<forall>b. expires_before = Some b \<and> b \<noteq> [] \<longrightarrow>
                          (\<exists>e. c_expires_on c = Some e \<and> date_le ops e b))) (certificates d))))"
    by blast
  from s(2) have "c \<in> set (pr_items
       \<lparr>pr_items = take (nat limit) (drop (nat skip') (filter (\<lambda>c. (truthy dog_id \<longrightarrow> Some (c_dog_id c) = dog_id)
                    \<and> (truthy cert_type \<longrightarrow> Some (c_cert_type c) = cert_type)
                    \<and> (\<forall>i. issuer = Some i \<and> i \<noteq> [] \<longrightarrow> ilike ops (c_issuer c) (''%'' @ i @ ''%''))
                    \<and> (\<forall>a. expires_after = Some a \<and> a \<noteq> [] \<longrightarrow>
                          (\<exists>e. c_expires_on c = Some e \<and> date_ge ops e a))
                    \<and> (\<forall>b. expires_before = Some b \<and> b \<noteq> [] \<longrightarrow>
                          (\<exists>e. c_expires_on c = Some e \<and> date_le ops e b))) (certificates d))),
            pr_total = int (length (filter (\<lambda>c. (truthy dog_id \<longrightarrow> Some (c_dog_id c) = dog_id)
                    \<and> (truthy cert_type \<longrightarrow> Some (c_cert_type c) = cert_type)
                    \<and> (\<forall>i. issuer = Some i \<and> i \<noteq> [] \<longrightarrow> ilike ops (c_issuer c) (''%'' @ i @ ''%''))
                    \<and> (\<forall>a. expires_after = Some a \<and> a \<noteq> [] \<longrightarrow>
                          (\<exists>e. c_expires_on c = Some e \<and> date_ge ops e a))
                    \<and> (\<forall>b. expires_before = Some b \<and> b \<noteq> [] \<longrightarrow>
                          (\<exists>e. c_expires_on c = Some e \<and> date_le ops e b))) (certificates d))),
            pr_page = skip' div limit + 1, pr_per_page = limit,
            pr_pages = (int (length (filter (\<lambda>c. (truthy dog_id \<longrightarrow> Some (c_dog_id c) = dog_id)
                    \<and> (truthy cert_type \<longrightarrow> Some (c_cert_type c) = cert_type)
                    \<and> (\<forall>i. issuer = Some i \<and> i \<noteq> [] \<longrightarrow> ilike ops (c_issuer c) (''%'' @ i @ ''%''))
                    \<and> (\<forall>a. expires_after = Some a \<and> a \<noteq> [] \<longrightarrow>
                          (\<exists>e. c_expires_on c = Some e \<and> date_ge ops e a))
                    \<and> (\<forall>b. expires_before = Some b \<and> b \<noteq> [] \<longrightarrow>
                          (\<exists>e. c_expires_on c = Some e \<and> date_le ops e b))) (certificates d))) + limit - 1) div limit\<rparr>)"
    by simp
  with s(1) get_certificates_matching [OF s(1) v, of ops d usr dog_id cert_type issuer
      expires_after expires_before]
  show "\<exists>skip'\<ge>0. \<exists>resp'.
                 get_certificates ops d usr skip' limit dog_id cert_type issuer expires_after
                   expires_before = Inr resp'
                 \<and> c \<in> set (pr_items resp')"
    by blast
next
  assume "0 \<le> skip \<and> 1 \<le> limit \<and> limit \<le> 1000"
  then show "\<exists>resp. get_certificates ops d usr skip limit None None None None None = Inr resp
           \<and> pr_total resp = int (length (certificates d))
           \<and> pr_items resp = take (nat limit) (drop (nat skip) (certificates d))"
    by (simp add: get_certificates_def service_get_certificates_def Let_def)
qed

theorem certificate_read_any_user_witness:
  "get_certificate ex_db ex_user2 ''c1'' = Inr ex_certificate
   \<and> get_certificates ex_ops ex_db ex_user2 0 100 (Some ''d2'') None None None None
       = Inr \<lparr>pr_items = [ex_certificate], pr_total = 1, pr_page = 1, pr_per_page = 100,
              pr_pages = 1\<rparr>
   \<and> (\<exists>resp. get_certificates ex_ops ex_db ex_user2 0 100 None None None None None = Inr resp
         \<and> pr_total resp = 1 \<and> pr_items resp = [ex_certificate])"
  using certificate_read_any_user [where d = ex_db and usr = ex_user2
      and certificate_id = "''c1''" and cert = ex_certificate and ops = ex_ops and skip = 0
      and limit = 100 and dog_id = "Some ''d2''" and cert_type = None and issuer = None
      and expires_after = None and expires_before = None]
  by (simp add: get_certificates_def service_get_certificates_def get_certificate_def
      service_get_certificate_def ex_db_def ex_certificate_def)

end
